theory Spec2Isabelle
  imports Main "HOL-Library.AList"
begin

section \<open>JavaScript values and strings\<close>

text \<open>
  The module under study is \<^verbatim>\<open>ui-editor/src/server/data/fs.ts\<close>. Its data are untyped
  (\<^verbatim>\<open>any\<close>) values produced by a YAML parser, so the embedding starts from a datatype of
  JavaScript values. A string is its list of UTF-16 code units, which is what the string
  methods and the (non-unicode-mode) regular expressions of the module work on. Numbers
  are the integers that print in plain decimal. An object is the list of its own
  enumerable entries in the order of their creation; a key occurs once. (JavaScript
  enumerates integer-like keys first; the lists here keep them where they were created,
  and nothing below depends on the order.)
\<close>

type_synonym jstring = "nat list"

definition ascii :: "string \<Rightarrow> jstring" where
  "ascii s = map of_char s"

datatype jsval =
    JUndefined
  | JNull
  | JBool bool
  | JNum int
  | JStr jstring
  | JArr "jsval list"
  | JObj "(jstring \<times> jsval) list"

text \<open>What a rejected promise or a thrown exception carries.\<close>

datatype exn = TypeError | IOError

text \<open>\<^verbatim>\<open>!v\<close> is \<open>\<not> truthy v\<close>.\<close>

fun truthy :: "jsval \<Rightarrow> bool" where
  "truthy JUndefined = False"
| "truthy JNull = False"
| "truthy (JBool b) = b"
| "truthy (JNum n) = (n \<noteq> 0)"
| "truthy (JStr s) = (s \<noteq> [])"
| "truthy (JArr xs) = True"
| "truthy (JObj kvs) = True"

text \<open>
  \<^verbatim>\<open>v.k\<close> for the field names this module reads (\<^verbatim>\<open>__file\<close>, \<^verbatim>\<open>slug\<close>, \<^verbatim>\<open>name\<close>,
  \<^verbatim>\<open>uuid\<close>, \<^verbatim>\<open>error\<close>): none of them is an index, \<^verbatim>\<open>length\<close> or a member of a built-in
  prototype, so only an object can hold one, as an own entry.
\<close>

fun getField :: "jsval \<Rightarrow> jstring \<Rightarrow> jsval" where
  "getField (JObj kvs) k = (case map_of kvs k of Some v \<Rightarrow> v | None \<Rightarrow> JUndefined)"
| "getField v k = JUndefined"

text \<open>
  \<^verbatim>\<open>String(n)\<close> for a number, which the model takes to be an integer: its decimal digits,
  as JavaScript prints an integer of magnitude below \<^verbatim>\<open>1e21\<close>. From there on JavaScript
  prints an exponent, which is not modelled.
\<close>

fun digitsOf :: "nat \<Rightarrow> jstring" where
  "digitsOf n = (if n < 10 then [48 + n] else digitsOf (n div 10) @ [48 + n mod 10])"

declare digitsOf.simps [simp del]

definition numToString :: "int \<Rightarrow> jstring" where
  "numToString i = (if i < 0 then 45 # digitsOf (nat (- i)) else digitsOf (nat i))"

text \<open>
  \<^verbatim>\<open>String(v)\<close>. An array is joined with commas, \<^verbatim>\<open>null\<close> and \<^verbatim>\<open>undefined\<close> elements
  printing as nothing. A plain object prints through \<^verbatim>\<open>Object.prototype.toString\<close>, unless
  an own entry \<^verbatim>\<open>toString\<close> (data, so not callable) hides it: then the conversion throws.
\<close>

fun toStr :: "jsval \<Rightarrow> exn + jstring"
  and joinElems :: "jsval list \<Rightarrow> exn + jstring" where
  "toStr JUndefined = Inr (ascii ''undefined'')"
| "toStr JNull = Inr (ascii ''null'')"
| "toStr (JBool b) = Inr (if b then ascii ''true'' else ascii ''false'')"
| "toStr (JNum n) = Inr (numToString n)"
| "toStr (JStr s) = Inr s"
| "toStr (JArr xs) = joinElems xs"
| "toStr (JObj kvs) =
     (if ascii ''toString'' \<in> fst ` set kvs then Inl TypeError
      else Inr (ascii ''[object Object]''))"
| "joinElems [] = Inr []"
| "joinElems (x # xs) =
     (case (if x = JUndefined \<or> x = JNull then Inr [] else toStr x) of
        Inl e \<Rightarrow> Inl e
      | Inr s \<Rightarrow>
          (if xs = [] then Inr s
           else case joinElems xs of Inl e \<Rightarrow> Inl e | Inr r \<Rightarrow> Inr (s @ 44 # r)))"

subsection \<open>Character classes and the regular expressions of the module\<close>

text \<open>
  \<^verbatim>\<open>\s\<close> of a regular expression and the characters \<^verbatim>\<open>trim()\<close> strips are the same set:
  ECMAScript's WhiteSpace and LineTerminator code points.
\<close>

definition isSpace :: "nat \<Rightarrow> bool" where
  "isSpace c \<longleftrightarrow>
     (9 \<le> c \<and> c \<le> 13) \<or> c = 32 \<or> c = 0xA0 \<or> c = 0x1680 \<or> (0x2000 \<le> c \<and> c \<le> 0x200A) \<or>
     c = 0x2028 \<or> c = 0x2029 \<or> c = 0x202F \<or> c = 0x205F \<or> c = 0x3000 \<or> c = 0xFEFF"

definition trim :: "jstring \<Rightarrow> jstring" where
  "trim s = rev (dropWhile isSpace (rev (dropWhile isSpace s)))"

text \<open>\<^verbatim>\<open>s.replace(/[P]+/g, '-')\<close>: every maximal run of characters of the class becomes one hyphen.\<close>

function replaceRuns :: "(nat \<Rightarrow> bool) \<Rightarrow> jstring \<Rightarrow> jstring" where
  "replaceRuns P [] = []"
| "replaceRuns P (c # cs) =
     (if P c then 45 # replaceRuns P (dropWhile P cs) else c # replaceRuns P cs)"
  by pat_completeness auto
termination
  by (relation "measure (\<lambda>(P, s). length s)") (auto simp: length_dropWhile_le less_Suc_eq_le)

text \<open>\<^verbatim>\<open>/[\u0300-\u036f]/g\<close>, the combining marks removed after decomposition.\<close>

definition isCombiningMark :: "nat \<Rightarrow> bool" where
  "isCombiningMark c \<longleftrightarrow> 0x300 \<le> c \<and> c \<le> 0x36F"

text \<open>The class \<^verbatim>\<open>[a-z0-9\s-]\<close>, whose complement \<^verbatim>\<open>/[^a-z0-9\s-]/g\<close> is dropped.\<close>

definition isSlugChar :: "nat \<Rightarrow> bool" where
  "isSlugChar c \<longleftrightarrow> (97 \<le> c \<and> c \<le> 122) \<or> (48 \<le> c \<and> c \<le> 57) \<or> isSpace c \<or> c = 45"

text \<open>The class \<^verbatim>\<open>[\s_]\<close>.\<close>

definition isSpaceOrUnderscore :: "nat \<Rightarrow> bool" where
  "isSpaceOrUnderscore c \<longleftrightarrow> isSpace c \<or> c = 95"

definition isHyphen :: "nat \<Rightarrow> bool" where
  "isHyphen c \<longleftrightarrow> c = 45"

text \<open>
  Case-insensitive matching without the \<^verbatim>\<open>u\<close> flag folds only the ASCII letters onto the
  letters of \<^verbatim>\<open>yaml\<close>: a code unit from 128 on never canonicalises to an ASCII one.
\<close>

definition lowerAscii :: "nat \<Rightarrow> nat" where
  "lowerAscii c = (if 65 \<le> c \<and> c \<le> 90 then c + 32 else c)"

definition endsWithCI :: "jstring \<Rightarrow> jstring \<Rightarrow> bool" where
  "endsWithCI suffix s \<longleftrightarrow>
     length suffix \<le> length s \<and> map lowerAscii (drop (length s - length suffix) s) = suffix"

text \<open>\<^verbatim>\<open>/\.ya?ml$/i.test(f)\<close>\<close>

definition hasYamlExt :: "jstring \<Rightarrow> bool" where
  "hasYamlExt f \<longleftrightarrow> endsWithCI (ascii ''.yaml'') f \<or> endsWithCI (ascii ''.yml'') f"

text \<open>\<^verbatim>\<open>f.replace(/\.(ya?ml)$/i, '')\<close>\<close>

definition stripYamlExt :: "jstring \<Rightarrow> jstring" where
  "stripYamlExt f =
     (if endsWithCI (ascii ''.yaml'') f then take (length f - 5) f
      else if endsWithCI (ascii ''.yml'') f then take (length f - 4) f
      else f)"

section \<open>The runtime the module runs on\<close>

text \<open>
  What the module takes from Node and from the \<^verbatim>\<open>yaml\<close> package is a parameter of the
  model: the working directory and the path functions, Unicode normalisation
  (\<^verbatim>\<open>String.prototype.normalize\<close>, absent on a runtime without it) and lower-casing, and
  the two functions of the \<^verbatim>\<open>yaml\<close> package (absent when the import fails or the member
  is not a function; applied, they return or throw, \<open>None\<close> being a throw; \<^verbatim>\<open>stringify\<close>
  returns a string, as its declared type and the module's \<^verbatim>\<open>let result: string\<close> say).
\<close>

record runtime =
  cwd :: jstring
  path_resolve :: "jstring list \<Rightarrow> jstring"
  path_join :: "jstring list \<Rightarrow> jstring"
  path_dirname :: "jstring \<Rightarrow> jstring"
  path_basename :: "jstring \<Rightarrow> jstring"
  normalizeNFKD :: "(jstring \<Rightarrow> jstring) option"
  toLowerCase :: "jstring \<Rightarrow> jstring"
  yaml_parse :: "(jstring \<Rightarrow> jsval option) option"
  yaml_stringify :: "(jsval \<Rightarrow> jstring option) option"

section \<open>slugifyName\<close>

text \<open>
  \<^verbatim>\<open>slugifyName(input)\<close>. A falsy input gives \<^verbatim>\<open>null\<close>. The \<^verbatim>\<open>try\<close> block throws exactly
  when \<^verbatim>\<open>input.normalize\<close> is not callable: on a runtime without it, where the \<^verbatim>\<open>catch\<close>
  block computes the simpler slug, and on a truthy input that is not a string, where the
  \<^verbatim>\<open>catch\<close> block's \<^verbatim>\<open>input.toLowerCase()\<close> throws in its turn.
\<close>

definition slugifyName :: "runtime \<Rightarrow> jsval \<Rightarrow> exn + jsval" where
  "slugifyName rt input =
     (if \<not> truthy input then Inr JNull
      else case input of
        JStr s \<Rightarrow>
          (case normalizeNFKD rt of
             Some nfkd \<Rightarrow>
               (let withNoDiacritics = filter (\<lambda>c. \<not> isCombiningMark c) (nfkd s)
                in Inr (JStr
                     (replaceRuns isHyphen
                       (replaceRuns isSpaceOrUnderscore
                         (filter isSlugChar
                           (trim (toLowerCase rt withNoDiacritics)))))))
           | None \<Rightarrow>
               Inr (JStr
                 (replaceRuns isHyphen
                   (replaceRuns isSpaceOrUnderscore (toLowerCase rt s)))))
      | _ \<Rightarrow> Inl TypeError)"

section \<open>matchesId\<close>

text \<open>
  \<^verbatim>\<open>matchesId(entity, id)\<close>. The file stem and the name slug are computed before the
  disjunction, so a throw of \<^verbatim>\<open>slugifyName\<close> comes first; \<^verbatim>\<open>String(entity.uuid)\<close> is
  evaluated only when the first three comparisons are false.
\<close>

definition matchesId :: "runtime \<Rightarrow> jsval \<Rightarrow> jstring \<Rightarrow> exn + bool" where
  "matchesId rt entity ident =
     (if \<not> truthy entity \<or> ident = [] then Inr False
      else
        let fileStem =
              (case getField entity (ascii ''__file'') of
                 JStr f \<Rightarrow> JStr (stripYamlExt f)
               | _ \<Rightarrow> JUndefined)
        in case slugifyName rt (getField entity (ascii ''name'')) of
             Inl e \<Rightarrow> Inl e
           | Inr nameSlug \<Rightarrow>
               if getField entity (ascii ''slug'') = JStr ident \<or> fileStem = JStr ident
                  \<or> nameSlug = JStr ident
               then Inr True
               else (case toStr (getField entity (ascii ''uuid'')) of
                       Inl e \<Rightarrow> Inl e
                     | Inr u \<Rightarrow> Inr (u = ident)))"

section \<open>The file system\<close>

text \<open>
  The state of the file system is what the calls of \<^verbatim>\<open>node:fs/promises\<close> used by the
  module observe of it, \<open>None\<close> (or \<open>False\<close> for \<^verbatim>\<open>access\<close>) being a rejected promise:
  \<^verbatim>\<open>stat(p)\<close> with \<^verbatim>\<open>isDirectory()\<close> of its result, \<^verbatim>\<open>readdir(p)\<close>, \<^verbatim>\<open>access(p)\<close> and
  \<^verbatim>\<open>readFile(p, 'utf8')\<close>. The observations are independent of each other, so an entry a
  directory lists may be unreadable. \<open>fs_readonly\<close> marks the paths where a change is
  refused.
\<close>

record fsys =
  fs_stat :: "jstring \<Rightarrow> bool option"
  fs_readdir :: "jstring \<Rightarrow> jstring list option"
  fs_access :: "jstring \<Rightarrow> bool"
  fs_readFile :: "jstring \<Rightarrow> jstring option"
  fs_readonly :: "jstring \<Rightarrow> bool"

definition addEntry :: "runtime \<Rightarrow> fsys \<Rightarrow> jstring \<Rightarrow> jstring \<Rightarrow> jstring list option" where
  "addEntry rt fs p =
     (fs_readdir fs)(path_dirname rt p :=
        map_option (\<lambda>ns. if path_basename rt p \<in> set ns then ns else ns @ [path_basename rt p])
          (fs_readdir fs (path_dirname rt p)))"

definition removeEntry :: "runtime \<Rightarrow> fsys \<Rightarrow> jstring \<Rightarrow> jstring \<Rightarrow> jstring list option" where
  "removeEntry rt fs p =
     (fs_readdir fs)(path_dirname rt p :=
        map_option (filter (\<lambda>n. n \<noteq> path_basename rt p)) (fs_readdir fs (path_dirname rt p)))"

text \<open>\<^verbatim>\<open>fs.unlink(p)\<close>: rejects on a missing path, a directory or a refused change.\<close>

definition fs_unlink :: "runtime \<Rightarrow> fsys \<Rightarrow> jstring \<Rightarrow> fsys option" where
  "fs_unlink rt fs p =
     (if fs_readonly fs p \<or> \<not> fs_access fs p \<or> fs_stat fs p = Some True then None
      else Some (fs\<lparr> fs_stat := (fs_stat fs)(p := None),
                     fs_readdir := removeEntry rt fs p,
                     fs_access := (fs_access fs)(p := False),
                     fs_readFile := (fs_readFile fs)(p := None) \<rparr>))"

text \<open>
  \<^verbatim>\<open>fs.writeFile(p, s, 'utf8')\<close>: rejects on a directory, a missing parent directory or a
  refused change; otherwise the file holds \<open>s\<close>, created when it was missing.
\<close>

definition fs_writeFile :: "runtime \<Rightarrow> fsys \<Rightarrow> jstring \<Rightarrow> jstring \<Rightarrow> fsys option" where
  "fs_writeFile rt fs p s =
     (if fs_readonly fs p \<or> fs_stat fs p = Some True
         \<or> fs_stat fs (path_dirname rt p) \<noteq> Some True then None
      else Some (fs\<lparr> fs_stat := (fs_stat fs)(p := Some False),
                     fs_readdir := addEntry rt fs p,
                     fs_access := (fs_access fs)(p := True),
                     fs_readFile := (fs_readFile fs)(p := Some s) \<rparr>))"

text \<open>
  \<^verbatim>\<open>fs.mkdir(p, { recursive: true })\<close>: nothing to do on a directory, a rejection on a file
  or a refused change; otherwise \<open>p\<close> is a new, empty directory.
\<close>

definition fs_mkdir :: "runtime \<Rightarrow> fsys \<Rightarrow> jstring \<Rightarrow> fsys option" where
  "fs_mkdir rt fs p =
     (if fs_readonly fs p \<or> fs_stat fs p = Some False then None
      else if fs_stat fs p = Some True then Some fs
      else Some (fs\<lparr> fs_stat := (fs_stat fs)(p := Some True),
                     fs_readdir := (addEntry rt fs p)(p := Some []),
                     fs_access := (fs_access fs)(p := True) \<rparr>))"

section \<open>Locating directories\<close>

text \<open>The loop over the candidates: the first one \<^verbatim>\<open>stat\<close> finds to be a directory.\<close>

fun firstDirectory :: "fsys \<Rightarrow> jstring list \<Rightarrow> jstring option" where
  "firstDirectory fs [] = None"
| "firstDirectory fs (p # ps) =
     (if fs_stat fs p = Some True then Some p else firstDirectory fs ps)"

definition findDataDir :: "runtime \<Rightarrow> fsys \<Rightarrow> jstring option" where
  "findDataDir rt fs =
     firstDirectory fs
       [path_resolve rt [cwd rt, ascii ''data''],
        path_resolve rt [cwd rt, ascii ''..'', ascii ''data'']]"

text \<open>
  \<^verbatim>\<open>findEntityDir(entity, createIfMissing)\<close> returns the directory (\<open>None\<close> for \<^verbatim>\<open>null\<close>)
  and the file system it leaves; a failing \<^verbatim>\<open>mkdir\<close> rejects.
\<close>

definition findEntityDir ::
  "runtime \<Rightarrow> fsys \<Rightarrow> jstring \<Rightarrow> bool \<Rightarrow> exn + (jstring option \<times> fsys)" where
  "findEntityDir rt fs entity createIfMissing =
     (case firstDirectory fs
             [path_resolve rt [cwd rt, ascii ''data'', entity],
              path_resolve rt [cwd rt, ascii ''..'', ascii ''data'', entity],
              path_resolve rt [cwd rt, ascii ''openprinttag'', entity],
              path_resolve rt [cwd rt, ascii ''..'', ascii ''openprinttag'', entity]] of
        Some p \<Rightarrow> Inr (Some p, fs)
      | None \<Rightarrow>
          if createIfMissing then
            (case findDataDir rt fs of
               Some dataDir \<Rightarrow>
                 (let newDir = path_join rt [dataDir, entity]
                  in case fs_mkdir rt fs newDir of
                       None \<Rightarrow> Inl IOError
                     | Some fs' \<Rightarrow> Inr (Some newDir, fs'))
             | None \<Rightarrow> Inr (None, fs))
          else Inr (None, fs))"

text \<open>
  The test \<^verbatim>\<open>if (!dir) return ...\<close> on a \<^verbatim>\<open>string | null\<close>: \<^verbatim>\<open>null\<close> and the empty string
  are falsy; \<open>usablePath\<close> keeps the directory that passes the test.
\<close>

fun usablePath :: "jstring option \<Rightarrow> jstring option" where
  "usablePath None = None"
| "usablePath (Some p) = (if p = [] then None else Some p)"

section \<open>Parsing\<close>

text \<open>\<^verbatim>\<open>content.split(/\r?\n/)\<close>\<close>

fun splitLines :: "jstring \<Rightarrow> jstring \<Rightarrow> jstring list" where
  "splitLines cur [] = [rev cur]"
| "splitLines cur (c # cs) =
     (if c = 10 then rev cur # splitLines [] cs
      else case cs of
             d # ds \<Rightarrow>
               if c = 13 \<and> d = 10 then rev cur # splitLines [] ds
               else splitLines (c # cur) cs
           | [] \<Rightarrow> splitLines (c # cur) cs)"

text \<open>\<^verbatim>\<open>line.indexOf(':')\<close>, \<open>None\<close> for \<^verbatim>\<open>-1\<close>.\<close>

fun indexOf :: "nat \<Rightarrow> jstring \<Rightarrow> nat option" where
  "indexOf x [] = None"
| "indexOf x (c # cs) = (if c = x then Some 0 else map_option Suc (indexOf x cs))"

text \<open>
  \<^verbatim>\<open>/^['"].*['"]$/.test(value)\<close>: a quote at each end, and between them no line terminator,
  which \<^verbatim>\<open>.\<close> does not match.
\<close>

definition isQuote :: "nat \<Rightarrow> bool" where
  "isQuote c \<longleftrightarrow> c = 39 \<or> c = 34"

definition isLineTerminator :: "nat \<Rightarrow> bool" where
  "isLineTerminator c \<longleftrightarrow> c = 10 \<or> c = 13 \<or> c = 0x2028 \<or> c = 0x2029"

definition isQuoted :: "jstring \<Rightarrow> bool" where
  "isQuoted v \<longleftrightarrow>
     2 \<le> length v \<and> isQuote (hd v) \<and> isQuote (last v)
     \<and> list_all (\<lambda>c. \<not> isLineTerminator c) (butlast (tl v))"

text \<open>
  \<^verbatim>\<open>obj[key] = value\<close> on the plain object the fallback parser fills. The key
  \<^verbatim>\<open>__proto__\<close> reaches the accessor of \<^verbatim>\<open>Object.prototype\<close>, which makes no own entry.
\<close>

definition assignKey :: "(jstring \<times> jsval) list \<Rightarrow> jstring \<Rightarrow> jsval \<Rightarrow> (jstring \<times> jsval) list" where
  "assignKey obj key v = (if key = ascii ''__proto__'' then obj else AList.update key v obj)"

text \<open>The body of the fallback parser's loop, for one line.\<close>

definition naiveLine :: "(jstring \<times> jsval) list \<Rightarrow> jstring \<Rightarrow> (jstring \<times> jsval) list" where
  "naiveLine obj rawLine =
     (let line = trim rawLine
      in if line = [] \<or> take 1 line = ascii ''#'' then obj
         else case indexOf 58 line of
                None \<Rightarrow> obj
              | Some idx \<Rightarrow>
                  (let key = trim (take idx line);
                       val = trim (drop (idx + 1) line)
                   in assignKey obj key
                        (if val = ascii ''null'' \<or> val = ascii ''~'' then JNull
                         else if isQuoted val then JStr (butlast (tl val))
                         else JStr val)))"

definition naiveParse :: "jstring \<Rightarrow> jsval" where
  "naiveParse content = JObj (foldl naiveLine [] (splitLines [] content))"

text \<open>
  \<^verbatim>\<open>parseYaml(content)\<close>. The call of the package's \<^verbatim>\<open>parse\<close> stands inside the \<^verbatim>\<open>try\<close>, so
  a throw of it (malformed YAML) is caught and falls through to the fallback parser, like
  a missing package: \<^verbatim>\<open>parseYaml\<close> always returns.
\<close>

definition parseYaml :: "runtime \<Rightarrow> jstring \<Rightarrow> jsval" where
  "parseYaml rt content =
     (case yaml_parse rt of
        Some parse \<Rightarrow> (case parse content of Some v \<Rightarrow> v | None \<Rightarrow> naiveParse content)
      | None \<Rightarrow> naiveParse content)"

section \<open>Object literals with spread and rest\<close>

text \<open>
  The own enumerable entries a spread \<^verbatim>\<open>...v\<close> copies: the entries of an object, read by
  key; the elements of an array and the code units of a string under their indices;
  nothing of any other value.
\<close>

fun ownEntries :: "jsval \<Rightarrow> (jstring \<times> jsval) list" where
  "ownEntries (JObj kvs) = map (\<lambda>k. (k, getField (JObj kvs) k)) (map fst kvs)"
| "ownEntries (JArr xs) = zip (map (\<lambda>i. numToString (int i)) [0..<length xs]) xs"
| "ownEntries (JStr s) =
     zip (map (\<lambda>i. numToString (int i)) [0..<length s]) (map (\<lambda>c. JStr [c]) s)"
| "ownEntries v = []"

text \<open>\<^verbatim>\<open>{ ...target, ...v }\<close>: each entry of \<open>v\<close> is assigned in turn.\<close>

definition spreadInto :: "(jstring \<times> jsval) list \<Rightarrow> jsval \<Rightarrow> (jstring \<times> jsval) list" where
  "spreadInto target v = fold (\<lambda>(k, x) t. AList.update k x t) (ownEntries v) target"

text \<open>\<^verbatim>\<open>{ __file: file, ...parsed }\<close>\<close>

definition withFile :: "jstring \<Rightarrow> jsval \<Rightarrow> jsval" where
  "withFile file parsed = JObj (spreadInto [(ascii ''__file'', JStr file)] parsed)"

text \<open>\<^verbatim>\<open>const { __file, ...rest } = match\<close>\<close>

definition withoutFile :: "jsval \<Rightarrow> jsval" where
  "withoutFile match = JObj (AList.delete (ascii ''__file'') (spreadInto [] match))"

text \<open>\<^verbatim>\<open>{ ...v, brand: { slug: brandId } }\<close>\<close>

definition withBrand :: "jstring \<Rightarrow> jsval \<Rightarrow> jsval" where
  "withBrand brandId v =
     JObj (AList.update (ascii ''brand'') (JObj [(ascii ''slug'', JStr brandId)]) (spreadInto [] v))"

text \<open>\<^verbatim>\<open>{ error: msg, status: n }\<close>\<close>

definition errorObj :: "jstring \<Rightarrow> int \<Rightarrow> jsval" where
  "errorObj msg status = JObj [(ascii ''error'', JStr msg), (ascii ''status'', JNum status)]"

section \<open>Reading a directory\<close>

text \<open>
  \<^verbatim>\<open>ReadOptions\<close>: two optional callbacks, taken to return without throwing; their results
  are used for their truthiness.
\<close>

record readOptions =
  fileFilter :: "(jstring \<Rightarrow> bool) option"
  validate :: "(jsval \<Rightarrow> bool) option"

definition noOptions :: readOptions where
  "noOptions = \<lparr> fileFilter = None, validate = None \<rparr>"

text \<open>
  The loop of \<^verbatim>\<open>getEntityFiles\<close> over the YAML files: a file that cannot be read is
  skipped (the warning it logs is not modelled), one the \<^verbatim>\<open>validate\<close> callback refuses
  too.
\<close>

fun scanFiles :: "runtime \<Rightarrow> fsys \<Rightarrow> jstring \<Rightarrow> readOptions \<Rightarrow> jstring list \<Rightarrow> jsval list" where
  "scanFiles rt fs dir opts [] = []"
| "scanFiles rt fs dir opts (file # files) =
     (case fs_readFile fs (path_join rt [dir, file]) of
        None \<Rightarrow> scanFiles rt fs dir opts files
      | Some content \<Rightarrow>
          (let parsed = parseYaml rt content
           in if (case validate opts of Some ok \<Rightarrow> \<not> ok parsed | None \<Rightarrow> False)
              then scanFiles rt fs dir opts files
              else withFile file parsed # scanFiles rt fs dir opts files))"

definition getEntityFiles :: "runtime \<Rightarrow> fsys \<Rightarrow> jstring \<Rightarrow> readOptions \<Rightarrow> jsval list" where
  "getEntityFiles rt fs dir opts =
     (case fs_readdir fs dir of
        None \<Rightarrow> []
      | Some fileNames \<Rightarrow>
          scanFiles rt fs dir opts
            (filter (\<lambda>f. hasYamlExt f \<and> (case fileFilter opts of None \<Rightarrow> True | Some keep \<Rightarrow> keep f))
               fileNames))"

text \<open>\<^verbatim>\<open>all.find((e) => matchesId(e, id))\<close>: the first match; a throw of the callback ends it.\<close>

fun findMatch :: "runtime \<Rightarrow> jstring \<Rightarrow> jsval list \<Rightarrow> exn + jsval option" where
  "findMatch rt ident [] = Inr None"
| "findMatch rt ident (e # es) =
     (case matchesId rt e ident of
        Inl x \<Rightarrow> Inl x
      | Inr True \<Rightarrow> Inr (Some e)
      | Inr False \<Rightarrow> findMatch rt ident es)"

text \<open>\<^verbatim>\<open>findEntityFile(dir, id)\<close>: the loop over \<^verbatim>\<open>['.yaml', '.yml']\<close>.\<close>

fun probeExts :: "runtime \<Rightarrow> fsys \<Rightarrow> jstring \<Rightarrow> jstring \<Rightarrow> jstring list \<Rightarrow> (jstring \<times> jstring) option" where
  "probeExts rt fs dir ident [] = None"
| "probeExts rt fs dir ident (ext # exts) =
     (let fullPath = path_join rt [dir, ident @ ext]
      in if fs_access fs fullPath then Some (fullPath, ext)
         else probeExts rt fs dir ident exts)"

definition findEntityFile :: "runtime \<Rightarrow> fsys \<Rightarrow> jstring \<Rightarrow> jstring \<Rightarrow> (jstring \<times> jstring) option" where
  "findEntityFile rt fs dir ident = probeExts rt fs dir ident [ascii ''.yaml'', ascii ''.yml'']"

section \<open>Reading entities\<close>

text \<open>
  The first step of \<^verbatim>\<open>readSingleEntity\<close> and \<^verbatim>\<open>readSingleNestedByBrand\<close>: the file
  \<^verbatim>\<open>findEntityFile\<close> finds is read and parsed inside a \<^verbatim>\<open>try\<close>; \<open>None\<close> when no file is
  found or the read throws, the two ways on to the scan.
\<close>

definition directRead :: "runtime \<Rightarrow> fsys \<Rightarrow> jstring \<Rightarrow> jstring \<Rightarrow> jsval option" where
  "directRead rt fs dir ident =
     (case findEntityFile rt fs dir ident of
        Some (p, ext) \<Rightarrow> map_option (parseYaml rt) (fs_readFile fs p)
      | None \<Rightarrow> None)"

definition readAllEntities :: "runtime \<Rightarrow> fsys \<Rightarrow> jstring \<Rightarrow> readOptions \<Rightarrow> exn + jsval" where
  "readAllEntities rt fs entity opts =
     (case findEntityDir rt fs entity False of
        Inl x \<Rightarrow> Inl x
      | Inr (found, fs') \<Rightarrow>
          (case usablePath found of
             None \<Rightarrow> Inr (errorObj (entity @ ascii '' directory not found'') 500)
           | Some dir \<Rightarrow> Inr (JArr (getEntityFiles rt fs' dir opts))))"

text \<open>
  \<^verbatim>\<open>readSingleEntity(entity, id)\<close>: the file found by name is read and parsed, and returned
  as parsed; if that fails, or no such file is there, the directory is scanned.
\<close>

definition readSingleEntity :: "runtime \<Rightarrow> fsys \<Rightarrow> jstring \<Rightarrow> jstring \<Rightarrow> exn + jsval" where
  "readSingleEntity rt fs entity ident =
     (case findEntityDir rt fs entity False of
        Inl x \<Rightarrow> Inl x
      | Inr (found, fs') \<Rightarrow>
          (case usablePath found of
             None \<Rightarrow> Inr (errorObj (entity @ ascii '' directory not found'') 500)
           | Some dir \<Rightarrow>
               (case directRead rt fs' dir ident of
                  Some parsed \<Rightarrow> Inr parsed
                | None \<Rightarrow>
                    (case findMatch rt ident (getEntityFiles rt fs' dir noOptions) of
                       Inl x \<Rightarrow> Inl x
                     | Inr None \<Rightarrow> Inr (errorObj (butlast entity @ ascii '' not found'') 404)
                     | Inr (Some match) \<Rightarrow> Inr (withoutFile match)))))"

section \<open>Entities nested by brand\<close>

text \<open>
  \<^verbatim>\<open>'error' in brand\<close>: a \<^verbatim>\<open>TypeError\<close> on a primitive; on an object, whether it has the
  entry (no built-in prototype has a member \<^verbatim>\<open>error\<close>).
\<close>

fun hasErrorKey :: "jsval \<Rightarrow> exn + bool" where
  "hasErrorKey (JObj kvs) = Inr (ascii ''error'' \<in> fst ` set kvs)"
| "hasErrorKey (JArr xs) = Inr False"
| "hasErrorKey v = Inl TypeError"

text \<open>
  The tail of \<^verbatim>\<open>findBrandDir\<close>, shared by its two ways out:
  \<^verbatim>\<open>if (createIfMissing) { await fs.mkdir(p, { recursive: true }); return p; } return null;\<close>
\<close>

definition createOrNull ::
  "runtime \<Rightarrow> fsys \<Rightarrow> jstring \<Rightarrow> bool \<Rightarrow> exn + (jstring option \<times> fsys)" where
  "createOrNull rt fs p createIfMissing =
     (if createIfMissing then
        (case fs_mkdir rt fs p of None \<Rightarrow> Inl IOError | Some fs' \<Rightarrow> Inr (Some p, fs'))
      else Inr (None, fs))"

text \<open>
  \<^verbatim>\<open>findBrandDir(brandId, entityDirName, createIfMissing)\<close>. \<^verbatim>\<open>path.join\<close> throws a
  \<^verbatim>\<open>TypeError\<close> on an argument that is not a string, which a truthy \<^verbatim>\<open>brand.slug\<close> can be.
\<close>

definition findBrandDir ::
  "runtime \<Rightarrow> fsys \<Rightarrow> jstring \<Rightarrow> jstring \<Rightarrow> bool \<Rightarrow> exn + (jstring option \<times> fsys)" where
  "findBrandDir rt fs brandId entityDirName createIfMissing =
     (case findEntityDir rt fs entityDirName createIfMissing of
        Inl x \<Rightarrow> Inl x
      | Inr (found, fs1) \<Rightarrow>
          (case usablePath found of
             None \<Rightarrow> Inr (None, fs1)
           | Some root \<Rightarrow>
               (let p = path_join rt [root, brandId]
                in if fs_stat fs1 p = Some True then Inr (Some p, fs1)
                   else
                     (case readSingleEntity rt fs1 (ascii ''brands'') brandId of
                        Inl x \<Rightarrow> Inl x
                      | Inr brand \<Rightarrow>
                          if \<not> truthy brand then createOrNull rt fs1 p createIfMissing
                          else
                            (case hasErrorKey brand of
                               Inl x \<Rightarrow> Inl x
                             | Inr True \<Rightarrow> createOrNull rt fs1 p createIfMissing
                             | Inr False \<Rightarrow>
                                 (case (if truthy (getField brand (ascii ''slug''))
                                        then Inr (getField brand (ascii ''slug''))
                                        else slugifyName rt (getField brand (ascii ''name''))) of
                                    Inl x \<Rightarrow> Inl x
                                  | Inr slug \<Rightarrow>
                                      if \<not> truthy slug then createOrNull rt fs1 p createIfMissing
                                      else
                                        (case slug of
                                           JStr s \<Rightarrow>
                                             (let slugPath = path_join rt [root, s]
                                              in if fs_stat fs1 slugPath = Some True
                                                 then Inr (Some slugPath, fs1)
                                                 else if createIfMissing then
                                                   (case fs_mkdir rt fs1 slugPath of
                                                      None \<Rightarrow> Inl IOError
                                                    | Some fs2 \<Rightarrow> Inr (Some slugPath, fs2))
                                                 else createOrNull rt fs1 p createIfMissing)
                                         | _ \<Rightarrow> Inl TypeError)))))))"

definition findBrandDirForNestedEntity ::
  "runtime \<Rightarrow> fsys \<Rightarrow> jstring \<Rightarrow> jstring \<Rightarrow> bool \<Rightarrow> exn + (jstring option \<times> fsys)" where
  "findBrandDirForNestedEntity rt fs entityDirName brandId createIfMissing =
     findBrandDir rt fs brandId entityDirName createIfMissing"

text \<open>The message \<^verbatim>\<open>`${entityDirName} for brand '${brandId}' not found`\<close>.\<close>

definition brandNotFound :: "jstring \<Rightarrow> jstring \<Rightarrow> jsval" where
  "brandNotFound entityDirName brandId =
     errorObj (entityDirName @ ascii '' for brand '' @ [39] @ brandId @ [39] @ ascii '' not found'') 404"

definition readNestedEntitiesByBrand ::
  "runtime \<Rightarrow> fsys \<Rightarrow> jstring \<Rightarrow> jstring \<Rightarrow> readOptions \<Rightarrow> exn + jsval" where
  "readNestedEntitiesByBrand rt fs entityDirName brandId opts =
     (case findBrandDirForNestedEntity rt fs entityDirName brandId False of
        Inl x \<Rightarrow> Inl x
      | Inr (found, fs') \<Rightarrow>
          (case usablePath found of
             None \<Rightarrow> Inr (brandNotFound entityDirName brandId)
           | Some dir \<Rightarrow> Inr (JArr (map (withBrand brandId) (getEntityFiles rt fs' dir opts)))))"

definition readMaterialsByBrand :: "runtime \<Rightarrow> fsys \<Rightarrow> jstring \<Rightarrow> readOptions \<Rightarrow> exn + jsval" where
  "readMaterialsByBrand rt fs brandId opts =
     readNestedEntitiesByBrand rt fs (ascii ''materials'') brandId opts"

text \<open>
  The loop of \<^verbatim>\<open>readAllNestedAcrossBrands\<close> over the entries of the root: an entry
  \<^verbatim>\<open>stat\<close> finds to be a directory is read, the others are passed over.
\<close>

fun scanBrands :: "runtime \<Rightarrow> fsys \<Rightarrow> jstring \<Rightarrow> readOptions \<Rightarrow> jstring list \<Rightarrow> jsval list" where
  "scanBrands rt fs root opts [] = []"
| "scanBrands rt fs root opts (entry # entries) =
     (let dir = path_join rt [root, entry]
      in if fs_stat fs dir = Some True
         then map (withBrand entry) (getEntityFiles rt fs dir opts) @ scanBrands rt fs root opts entries
         else scanBrands rt fs root opts entries)"

definition readAllNestedAcrossBrands ::
  "runtime \<Rightarrow> fsys \<Rightarrow> jstring \<Rightarrow> readOptions \<Rightarrow> exn + jsval" where
  "readAllNestedAcrossBrands rt fs entityDirName opts =
     (case findEntityDir rt fs entityDirName False of
        Inl x \<Rightarrow> Inl x
      | Inr (found, fs') \<Rightarrow>
          (case usablePath found of
             None \<Rightarrow> Inr (errorObj (entityDirName @ ascii '' directory not found'') 500)
           | Some root \<Rightarrow>
               (case fs_readdir fs' root of
                  None \<Rightarrow> Inr (errorObj (ascii ''Failed to read '' @ entityDirName) 500)
                | Some entries \<Rightarrow> Inr (JArr (scanBrands rt fs' root opts entries)))))"

definition readAllMaterialsAcrossBrands :: "runtime \<Rightarrow> fsys \<Rightarrow> readOptions \<Rightarrow> exn + jsval" where
  "readAllMaterialsAcrossBrands rt fs opts = readAllNestedAcrossBrands rt fs (ascii ''materials'') opts"

definition readSingleNestedByBrand ::
  "runtime \<Rightarrow> fsys \<Rightarrow> jstring \<Rightarrow> jstring \<Rightarrow> jstring \<Rightarrow> exn + jsval" where
  "readSingleNestedByBrand rt fs entityDirName brandId ident =
     (case findBrandDirForNestedEntity rt fs entityDirName brandId False of
        Inl x \<Rightarrow> Inl x
      | Inr (found, fs') \<Rightarrow>
          (case usablePath found of
             None \<Rightarrow> Inr (brandNotFound entityDirName brandId)
           | Some dir \<Rightarrow>
               (case directRead rt fs' dir ident of
                  Some parsed \<Rightarrow> Inr (withBrand brandId parsed)
                | None \<Rightarrow>
                    (case findMatch rt ident (getEntityFiles rt fs' dir noOptions) of
                       Inl x \<Rightarrow> Inl x
                     | Inr None \<Rightarrow> Inr (errorObj (ascii ''entity not found'') 404)
                     | Inr (Some match) \<Rightarrow> Inr (withBrand brandId (withoutFile match))))))"

section \<open>Serialising\<close>

text \<open>
  \<^verbatim>\<open>JSON.stringify(obj, null, 2)\<close>, as ECMAScript defines it on the values of the model.
  A string is quoted with the two-character escapes, \<^verbatim>\<open>\u\<close> escapes for the other
  control characters and for a surrogate that stands alone.
\<close>

definition hexDigit :: "nat \<Rightarrow> nat" where
  "hexDigit d = (if d < 10 then 48 + d else 87 + d)"

definition unicodeEscape :: "nat \<Rightarrow> jstring" where
  "unicodeEscape c =
     [92, 117, hexDigit (c div 4096 mod 16), hexDigit (c div 256 mod 16),
      hexDigit (c div 16 mod 16), hexDigit (c mod 16)]"

definition isHighSurrogate :: "nat \<Rightarrow> bool" where
  "isHighSurrogate c \<longleftrightarrow> 0xD800 \<le> c \<and> c \<le> 0xDBFF"

definition isLowSurrogate :: "nat \<Rightarrow> bool" where
  "isLowSurrogate c \<longleftrightarrow> 0xDC00 \<le> c \<and> c \<le> 0xDFFF"

fun quoteChars :: "jstring \<Rightarrow> jstring" where
  "quoteChars [] = []"
| "quoteChars (c # cs) =
     (if c = 8 then [92, 98] @ quoteChars cs
      else if c = 9 then [92, 116] @ quoteChars cs
      else if c = 10 then [92, 110] @ quoteChars cs
      else if c = 12 then [92, 102] @ quoteChars cs
      else if c = 13 then [92, 114] @ quoteChars cs
      else if c = 34 then [92, 34] @ quoteChars cs
      else if c = 92 then [92, 92] @ quoteChars cs
      else if c < 32 \<or> isLowSurrogate c then unicodeEscape c @ quoteChars cs
      else if isHighSurrogate c then
        (case cs of
           d # ds \<Rightarrow>
             if isLowSurrogate d then c # d # quoteChars ds
             else unicodeEscape c @ quoteChars cs
         | [] \<Rightarrow> unicodeEscape c)
      else c # quoteChars cs)"

definition jsonQuote :: "jstring \<Rightarrow> jstring" where
  "jsonQuote s = 34 # quoteChars s @ [34]"

text \<open>\<^verbatim>\<open>xs.join(sep)\<close> on strings.\<close>

fun joinWith :: "jstring \<Rightarrow> jstring list \<Rightarrow> jstring" where
  "joinWith sep [] = []"
| "joinWith sep [x] = x"
| "joinWith sep (x # y # ys) = x @ sep @ joinWith sep (y # ys)"

text \<open>
  The serialisation of a value at an indentation: \<open>None\<close> is \<^verbatim>\<open>undefined\<close>, which an array
  prints as \<^verbatim>\<open>null\<close> and an object leaves out with its key. The gap is two spaces.
  The members of an object are printed in the order of its entries; JavaScript prints the
  keys that are array indices first, in ascending order, which is not modelled.
\<close>

fun jsonValue :: "jstring \<Rightarrow> jsval \<Rightarrow> jstring option"
  and jsonItems :: "jstring \<Rightarrow> jsval list \<Rightarrow> jstring list"
  and jsonMembers :: "jstring \<Rightarrow> (jstring \<times> jsval) list \<Rightarrow> jstring list" where
  "jsonValue ind JUndefined = None"
| "jsonValue ind JNull = Some (ascii ''null'')"
| "jsonValue ind (JBool b) = Some (if b then ascii ''true'' else ascii ''false'')"
| "jsonValue ind (JNum n) = Some (numToString n)"
| "jsonValue ind (JStr s) = Some (jsonQuote s)"
| "jsonValue ind (JArr xs) =
     Some (if xs = [] then ascii ''[]''
           else ascii ''['' @ [10] @ (ind @ ascii ''  '')
                @ joinWith (ascii '','' @ [10] @ (ind @ ascii ''  '')) (jsonItems (ind @ ascii ''  '') xs)
                @ [10] @ ind @ ascii '']'')"
| "jsonValue ind (JObj kvs) =
     Some (if jsonMembers (ind @ ascii ''  '') kvs = [] then ascii ''{}''
           else ascii ''{'' @ [10] @ (ind @ ascii ''  '')
                @ joinWith (ascii '','' @ [10] @ (ind @ ascii ''  '')) (jsonMembers (ind @ ascii ''  '') kvs)
                @ [10] @ ind @ ascii ''}'')"
| "jsonItems ind [] = []"
| "jsonItems ind (x # xs) =
     (case jsonValue ind x of None \<Rightarrow> ascii ''null'' | Some s \<Rightarrow> s) # jsonItems ind xs"
| "jsonMembers ind [] = []"
| "jsonMembers ind ((k, v) # kvs) =
     (case jsonValue ind v of
        None \<Rightarrow> jsonMembers ind kvs
      | Some s \<Rightarrow> (jsonQuote k @ ascii '': '' @ s) # jsonMembers ind kvs)"

text \<open>
  \<^verbatim>\<open>header + JSON.stringify(obj, null, 2)\<close>: the concatenation prints \<^verbatim>\<open>undefined\<close> by its
  name.
\<close>

definition fallbackHeader :: jstring where
  "fallbackHeader =
     ascii ''# NOTE: YAML library unavailable at runtime, writing JSON-like content as a fallback.''
     @ [10]"

definition jsonFallback :: "jsval \<Rightarrow> jstring" where
  "jsonFallback obj =
     fallbackHeader @ (case jsonValue [] obj of None \<Rightarrow> ascii ''undefined'' | Some s \<Rightarrow> s)"

text \<open>\<^verbatim>\<open>result.endsWith('\n')\<close>\<close>

definition endsWithNewline :: "jstring \<Rightarrow> bool" where
  "endsWithNewline s \<longleftrightarrow> s \<noteq> [] \<and> last s = 10"

text \<open>
  \<^verbatim>\<open>stringifyYaml(obj)\<close>: the package's \<^verbatim>\<open>stringify\<close> when it is there and returns, the
  JSON fallback when it is missing or throws; then a newline is appended to a result that
  does not end with one.
\<close>

definition stringifyYaml :: "runtime \<Rightarrow> jsval \<Rightarrow> jstring" where
  "stringifyYaml rt obj =
     (let result =
            (case yaml_stringify rt of
               Some stringify \<Rightarrow>
                 (case stringify obj of Some s \<Rightarrow> s | None \<Rightarrow> jsonFallback obj)
             | None \<Rightarrow> jsonFallback obj)
      in if \<not> endsWithNewline result then result @ [10] else result)"

section \<open>Writing and deleting\<close>

text \<open>\<^verbatim>\<open>{ ok: true }\<close>\<close>

definition okObj :: jsval where
  "okObj = JObj [(ascii ''ok'', JBool True)]"

text \<open>
  The body of both \<^verbatim>\<open>try\<close> blocks of \<^verbatim>\<open>updateEntityFile\<close>: \<^verbatim>\<open>unlink\<close> for a \<^verbatim>\<open>null\<close> value,
  \<^verbatim>\<open>writeFile\<close> of the serialised value otherwise; \<open>None\<close> when the call rejects.
\<close>

definition unlinkOrWrite :: "runtime \<Rightarrow> fsys \<Rightarrow> jstring \<Rightarrow> jsval \<Rightarrow> fsys option" where
  "unlinkOrWrite rt fs p newValue =
     (if newValue = JNull then fs_unlink rt fs p
      else fs_writeFile rt fs p (stringifyYaml rt newValue))"

text \<open>
  \<^verbatim>\<open>updateEntityFile(dir, id, newValue)\<close> returns its result and the file system it leaves.
  \<^verbatim>\<open>path.join(dir, match.__file)\<close> stands outside the second \<^verbatim>\<open>try\<close> and throws on a
  \<^verbatim>\<open>__file\<close> that is not a string.
\<close>

definition updateEntityFile ::
  "runtime \<Rightarrow> fsys \<Rightarrow> jstring \<Rightarrow> jstring \<Rightarrow> jsval \<Rightarrow> exn + (jsval \<times> fsys)" where
  "updateEntityFile rt fs dir ident newValue =
     (case (case findEntityFile rt fs dir ident of
              Some (p, ext) \<Rightarrow> unlinkOrWrite rt fs p newValue
            | None \<Rightarrow> None) of
        Some fs' \<Rightarrow> Inr (okObj, fs')
      | None \<Rightarrow>
          (case findMatch rt ident (getEntityFiles rt fs dir noOptions) of
             Inl x \<Rightarrow> Inl x
           | Inr None \<Rightarrow> Inr (errorObj (ascii ''item not found'') 404, fs)
           | Inr (Some match) \<Rightarrow>
               (case getField match (ascii ''__file'') of
                  JStr f \<Rightarrow>
                    (case unlinkOrWrite rt fs (path_join rt [dir, f]) newValue of
                       Some fs' \<Rightarrow> Inr (okObj, fs')
                     | None \<Rightarrow> Inr (errorObj (ascii ''Failed to update file'') 500, fs))
                | _ \<Rightarrow> Inl TypeError)))"



definition writeNestedByBrand ::
  "runtime \<Rightarrow> fsys \<Rightarrow> jstring \<Rightarrow> jstring \<Rightarrow> jstring \<Rightarrow> jsval \<Rightarrow> exn + (jsval \<times> fsys)" where
  "writeNestedByBrand rt fs entityDirName brandId ident newValue =
     (case findBrandDirForNestedEntity rt fs entityDirName brandId False of
        Inl x \<Rightarrow> Inl x
      | Inr (found, fs') \<Rightarrow>
          (case usablePath found of
             None \<Rightarrow> Inr (errorObj (entityDirName @ ascii '' brand directory not found'') 500, fs')
           | Some dir \<Rightarrow> updateEntityFile rt fs' dir ident newValue))"

definition deleteNestedByBrand ::
  "runtime \<Rightarrow> fsys \<Rightarrow> jstring \<Rightarrow> jstring \<Rightarrow> jstring \<Rightarrow> exn + (jsval \<times> fsys)" where
  "deleteNestedByBrand rt fs entityDirName brandId ident =
     (case findBrandDirForNestedEntity rt fs entityDirName brandId False of
        Inl x \<Rightarrow> Inl x
      | Inr (found, fs') \<Rightarrow>
          (case usablePath found of
             None \<Rightarrow> Inr (errorObj (entityDirName @ ascii '' brand directory not found'') 500, fs')
           | Some dir \<Rightarrow> updateEntityFile rt fs' dir ident JNull))"

section \<open>Lookup tables\<close>

definition NEW_ENUMS :: "jstring list" where
  "NEW_ENUMS =
     [ascii ''material_certifications'',
      ascii ''material_tags'',
      ascii ''material_types'',
      ascii ''material_tag_categories'',
      ascii ''material_photo_types'',
      ascii ''brand_link_pattern_types'',
      ascii ''countries'']"

text \<open>The path \<^verbatim>\<open>path.join(process.cwd(), '../openprinttag/data', `${tableName}.yaml`)\<close>.\<close>

definition lookupTablePath :: "runtime \<Rightarrow> jstring \<Rightarrow> jstring" where
  "lookupTablePath rt tableName =
     path_join rt [cwd rt, ascii ''../openprinttag/data'', tableName @ ascii ''.yaml'']"

text \<open>\<^verbatim>\<open>{ items: data, meta: { key: 'items' } }\<close>\<close>

definition tableObj :: "jsval list \<Rightarrow> jsval" where
  "tableObj items =
     JObj [(ascii ''items'', JArr items),
           (ascii ''meta'', JObj [(ascii ''key'', JStr (ascii ''items''))])]"

definition readLookupTable :: "runtime \<Rightarrow> fsys \<Rightarrow> jstring \<Rightarrow> jsval" where
  "readLookupTable rt fs tableName =
     (if tableName \<in> set NEW_ENUMS then
        (case fs_readFile fs (lookupTablePath rt tableName) of
           None \<Rightarrow> errorObj (ascii ''Lookup table not found'') 404
         | Some content \<Rightarrow>
             (case parseYaml rt content of
                JArr items \<Rightarrow> tableObj items
              | _ \<Rightarrow> errorObj (ascii ''Invalid lookup table file (expected array)'') 500))
      else errorObj (ascii ''Lookup table not found'') 404)"

section \<open>Sample data\<close>

text \<open>
  A runtime for evaluating calls at concrete inputs: POSIX-style paths without
  normalisation, decomposition of U+00E9 into \<^verbatim>\<open>e\<close> and U+0301 (every other code unit
  kept), lower-casing of the ASCII letters, and no \<^verbatim>\<open>yaml\<close> package.
\<close>

fun joinSlash :: "jstring list \<Rightarrow> jstring" where
  "joinSlash [] = []"
| "joinSlash [p] = p"
| "joinSlash (p # q # ps) = p @ 47 # joinSlash (q # ps)"

definition sampleNFKD :: "jstring \<Rightarrow> jstring" where
  "sampleNFKD s = concat (map (\<lambda>c. if c = 0xE9 then [101, 0x301] else [c]) s)"

definition sampleRuntime :: runtime where
  "sampleRuntime =
     \<lparr> cwd = ascii ''/app'',
       path_resolve = joinSlash,
       path_join = joinSlash,
       path_dirname = (\<lambda>p. rev (drop 1 (dropWhile (\<lambda>c. c \<noteq> 47) (rev p)))),
       path_basename = (\<lambda>p. rev (takeWhile (\<lambda>c. c \<noteq> 47) (rev p))),
       normalizeNFKD = Some sampleNFKD,
       toLowerCase = map lowerAscii,
       yaml_parse = None,
       yaml_stringify = None \<rparr>"

text \<open>The second example of the specification, with U+00E9 as one code unit.\<close>

definition cafeNoirBrand :: jstring where
  "cafeNoirBrand = [67, 97, 102, 0xE9] @ ascii ''   Noir_Brand''"

text \<open>
  A data root with two brand files that can be read, one that cannot, a file that is not
  YAML, and one brand directory of materials. The brand in \<^verbatim>\<open>acme.yaml\<close> has a slug that is
  not its file name; the document in \<^verbatim>\<open>shadow.yml\<close> has a field \<^verbatim>\<open>__file\<close> of its own.
  The one package file holds an unterminated flow sequence, which is not YAML; the one
  container file gives its container a number for a name.
\<close>

definition acmeText :: jstring where
  "acmeText = ascii ''slug: acme-corp'' @ [10] @ ascii ''name: Acme Corp'' @ [10] @ ascii ''uuid: 1234''"

definition shadowText :: jstring where
  "shadowText = ascii ''__file: ghost.yaml'' @ [10] @ ascii ''name: Phantom''"

definition plaText :: jstring where
  "plaText = ascii ''name: PLA Basic'' @ [10] @ ascii ''brand: x''"

definition sampleStat :: "(jstring \<times> bool) list" where
  "sampleStat =
     [(ascii ''/app/data/brands'', True),
      (ascii ''/app/data/brands/acme.yaml'', False),
      (ascii ''/app/data/brands/broken.yaml'', False),
      (ascii ''/app/data/brands/shadow.yml'', False),
      (ascii ''/app/data/brands/notes.txt'', False),
      (ascii ''/app/data/materials'', True),
      (ascii ''/app/data/materials/acme-corp'', True),
      (ascii ''/app/data/materials/acme-corp/pla.yaml'', False),
      (ascii ''/app/data/materials/readme.md'', False),
      (ascii ''/app/data/packages'', True),
      (ascii ''/app/data/packages/bad.yaml'', False),
      (ascii ''/app/data/containers'', True),
      (ascii ''/app/data/containers/five.yaml'', False)]"

definition sampleListing :: "(jstring \<times> jstring list) list" where
  "sampleListing =
     [(ascii ''/app/data/brands'',
         [ascii ''acme.yaml'', ascii ''broken.yaml'', ascii ''notes.txt'', ascii ''shadow.yml'']),
      (ascii ''/app/data/materials'', [ascii ''acme-corp'', ascii ''readme.md'']),
      (ascii ''/app/data/materials/acme-corp'', [ascii ''pla.yaml'']),
      (ascii ''/app/data/packages'', [ascii ''bad.yaml'']),
      (ascii ''/app/data/containers'', [ascii ''five.yaml''])]"

definition sampleFiles :: "(jstring \<times> jstring) list" where
  "sampleFiles =
     [(ascii ''/app/data/brands/acme.yaml'', acmeText),
      (ascii ''/app/data/brands/shadow.yml'', shadowText),
      (ascii ''/app/data/brands/notes.txt'', ascii ''hello''),
      (ascii ''/app/data/materials/acme-corp/pla.yaml'', plaText),
      (ascii ''/app/data/materials/readme.md'', ascii ''# materials''),
      (ascii ''/app/data/packages/bad.yaml'', ascii ''name: [oops''),
      (ascii ''/app/data/containers/five.yaml'', ascii ''name: 5''),
      (ascii ''/app/../openprinttag/data/countries.yaml'', ascii ''- FR'')]"

definition sampleFs :: fsys where
  "sampleFs =
     \<lparr> fs_stat = map_of sampleStat,
       fs_readdir = map_of sampleListing,
       fs_access = (\<lambda>p. map_of sampleStat p \<noteq> None),
       fs_readFile = map_of sampleFiles,
       fs_readonly = (\<lambda>p. False) \<rparr>"

text \<open>What the fallback parser makes of the files, and what the readers make of that.\<close>

definition acmeDoc :: jsval where
  "acmeDoc = JObj [(ascii ''slug'', JStr (ascii ''acme-corp'')), (ascii ''name'', JStr (ascii ''Acme Corp'')),
                   (ascii ''uuid'', JStr (ascii ''1234''))]"

definition acmeScan :: jsval where
  "acmeScan = JObj [(ascii ''__file'', JStr (ascii ''acme.yaml'')),
                    (ascii ''slug'', JStr (ascii ''acme-corp'')), (ascii ''name'', JStr (ascii ''Acme Corp'')),
                    (ascii ''uuid'', JStr (ascii ''1234''))]"

definition shadowDoc :: jsval where
  "shadowDoc = JObj [(ascii ''__file'', JStr (ascii ''ghost.yaml'')), (ascii ''name'', JStr (ascii ''Phantom''))]"

definition plaDoc :: jsval where
  "plaDoc = JObj [(ascii ''name'', JStr (ascii ''PLA Basic'')), (ascii ''brand'', JStr (ascii ''x''))]"

definition plaTagged :: "jstring \<Rightarrow> jsval" where
  "plaTagged b = JObj [(ascii ''__file'', JStr (ascii ''pla.yaml'')), (ascii ''name'', JStr (ascii ''PLA Basic'')),
                      (ascii ''brand'', JObj [(ascii ''slug'', JStr b)])]"

text \<open>
  A runtime whose \<^verbatim>\<open>yaml\<close> package serialises one document, a string that ends in two line
  breaks, as the block scalar with keep chomping that represents it, and throws on any
  other; one whose package parses the one sequence used below; and one whose package
  throws on the contents it is given here, as it does on malformed YAML.
\<close>

definition noteDoc :: jsval where
  "noteDoc = JObj [(ascii ''note'', JStr [120, 10, 10])]"

definition noteText :: jstring where
  "noteText = ascii ''note: |+'' @ [10] @ ascii ''  x'' @ [10, 10]"

definition blockScalarRuntime :: runtime where
  "blockScalarRuntime =
     sampleRuntime\<lparr> yaml_stringify := Some (\<lambda>v. if v = noteDoc then Some noteText else None) \<rparr>"

definition listRuntime :: runtime where
  "listRuntime =
     sampleRuntime\<lparr> yaml_parse :=
       Some (\<lambda>c. if c = ascii ''- FR'' then Some (JArr [JStr (ascii ''FR'')]) else None) \<rparr>"

definition strictRuntime :: runtime where
  "strictRuntime = sampleRuntime\<lparr> yaml_parse := Some (\<lambda>c. None) \<rparr>"



text \<open>The material read on its own, as \<^verbatim>\<open>{ ...parsed, brand: { slug: b } }\<close>.\<close>

definition plaSingle :: "jstring \<Rightarrow> jsval" where
  "plaSingle b = JObj [(ascii ''name'', JStr (ascii ''PLA Basic'')),
                      (ascii ''brand'', JObj [(ascii ''slug'', JStr b)])]"


section \<open>Measures used in the statements\<close>

text \<open>The number of newline characters a string ends with.\<close>

definition trailingNewlines :: "jstring \<Rightarrow> nat" where
  "trailingNewlines s = length (takeWhile (\<lambda>c. c = 10) (rev s))"

section \<open>Auxiliary facts\<close>

subsection \<open>Strings and numbers\<close>

text \<open>
  \<open>ascii\<close> is injective, so equalities between literals are decided on the literals; the
  decimal digits of a number are digits.
\<close>

lemma ascii_eq_iff: "ascii s = ascii t \<longleftrightarrow> s = t"
  by (simp add: ascii_def inj_map_eq_map inj_on_def)

lemma ascii_nonempty: "ascii (c # cs) \<noteq> []"
  by (simp add: ascii_def)

lemma ascii_join: "ascii s @ ascii t = ascii (s @ t)" by (simp add: ascii_def)

lemma ascii_slash: "47 # ascii t = ascii (CHR ''/'' # t)" by (simp add: ascii_def)

lemma ascii_join2: "ascii s @ 47 # ascii t = ascii (s @ CHR ''/'' # t)" by (simp add: ascii_def)

lemmas path_eval = ascii_join ascii_slash ascii_join2 ascii_eq_iff

lemma digitsOf_digits: "c \<in> set (digitsOf n) \<Longrightarrow> 48 \<le> c \<and> c \<le> 57"
proof (induction n arbitrary: c rule: digitsOf.induct)
  case (1 n)
  show ?case
  proof (cases "n < 10")
    case True
    then show ?thesis using "1.prems" by (simp add: digitsOf.simps [of n])
  next
    case False
    have "n mod 10 < 10" by simp
    then show ?thesis
      using "1.prems" "1.IH" False by (auto simp add: digitsOf.simps [of n])
  qed
qed

lemma digitsOf_nonempty: "digitsOf n \<noteq> []"
  by (subst digitsOf.simps) simp

lemma digitsOf_last: "last (digitsOf n) \<noteq> 10"
proof -
  have "last (digitsOf n) \<in> set (digitsOf n)" using digitsOf_nonempty by simp
  then have "48 \<le> last (digitsOf n)" using digitsOf_digits by blast
  then show ?thesis by simp
qed

lemma numToString_last: "numToString i \<noteq> [] \<and> last (numToString i) \<noteq> 10"
  by (simp add: numToString_def digitsOf_nonempty digitsOf_last)

lemma index_key_not_file: "numToString (int i) \<noteq> ascii ''__file''"
proof
  assume "numToString (int i) = ascii ''__file''"
  then have "95 \<in> set (digitsOf i)" by (simp add: numToString_def ascii_def)
  then show False using digitsOf_digits by fastforce
qed

lemma file_not_index:
  "ascii ''__file'' \<notin> set (map (\<lambda>i. numToString (int i)) ns)"
  using index_key_not_file by (induction ns) fastforce+

subsection \<open>slugifyName and matchesId\<close>

text \<open>
  \<^verbatim>\<open>slugifyName\<close> returns on a falsy value and on a string, and throws on any other value.
  On the path of the \<^verbatim>\<open>catch\<close> block an underscore becomes a hyphen.
\<close>

lemma slugify_falsy: "\<not> truthy v \<Longrightarrow> slugifyName rt v = Inr JNull"
  by (simp add: slugifyName_def)

lemma slugifyName_string_returns: "\<exists>r. slugifyName rt (JStr s) = Inr r"
  by (simp add: slugifyName_def split: option.splits)

lemma slugifyName_throws:
  "truthy v \<Longrightarrow> \<forall>s. v \<noteq> JStr s \<Longrightarrow> slugifyName rt v = Inl TypeError"
  by (cases v) (simp_all add: slugifyName_def)

lemmas charclass_defs = isCombiningMark_def isSlugChar_def isSpace_def isSpaceOrUnderscore_def
  isHyphen_def trim_def

lemma slugify_primary:
  assumes "normalizeNFKD rt = Some nfkd" and "s \<noteq> []"
    and "filter (\<lambda>c. \<not> isCombiningMark c) (nfkd s) = d"
    and "toLowerCase rt d = l"
    and "replaceRuns isHyphen (replaceRuns isSpaceOrUnderscore (filter isSlugChar (trim l))) = r"
  shows "slugifyName rt (JStr s) = Inr (JStr r)"
  using assms by (simp add: slugifyName_def)

lemma slugify_fallback:
  assumes "normalizeNFKD rt = None" and "s \<noteq> []"
  shows "slugifyName rt (JStr s) =
     Inr (JStr (replaceRuns isHyphen (replaceRuns isSpaceOrUnderscore (toLowerCase rt s))))"
  using assms by (simp add: slugifyName_def)

lemma slugify_fallback_underscore:
  assumes "normalizeNFKD rt = None"
    and "toLowerCase rt cafeNoirBrand = [99, 97, 102, 0xE9] @ ascii ''   noir_brand''"
  shows "slugifyName rt (JStr cafeNoirBrand) = Inr (JStr ([99, 97, 102, 0xE9] @ ascii ''-noir-brand''))"
proof -
  have "cafeNoirBrand \<noteq> []" by (simp add: cafeNoirBrand_def)
  then show ?thesis
    by (simp add: slugify_fallback [OF assms(1)] assms(2)) (simp add: ascii_def charclass_defs)
qed

lemma matchesId_falsy:
  "\<not> truthy entity \<or> ident = [] \<Longrightarrow> matchesId rt entity ident = Inr False"
  by (auto simp add: matchesId_def)

lemma matchesId_returns:
  assumes "truthy entity" and "ident \<noteq> []"
    and "slugifyName rt (getField entity (ascii ''name'')) = Inr nameSlug"
    and "toStr (getField entity (ascii ''uuid'')) = Inr u"
  shows "matchesId rt entity ident =
     Inr (getField entity (ascii ''slug'') = JStr ident
          \<or> (\<exists>f. getField entity (ascii ''__file'') = JStr f \<and> stripYamlExt f = ident)
          \<or> nameSlug = JStr ident
          \<or> u = ident)"
  using assms by (auto simp add: matchesId_def Let_def split: jsval.splits)

lemma matchesId_fields:
  assumes "truthy a = truthy b" and "\<And>k. getField a k = getField b k"
  shows "matchesId rt a ident = matchesId rt b ident"
  unfolding matchesId_def assms(1) assms(2) ..


subsection \<open>Parsing and scanning\<close>

text \<open>
  \<^verbatim>\<open>parseYaml\<close> is the package's \<^verbatim>\<open>parse\<close> where that returns and the fallback parser
  everywhere else. Every document of a scan comes from a listed file that could be read.
\<close>

lemma parseYaml_fallback:
  "yaml_parse rt = None \<Longrightarrow> parseYaml rt content = naiveParse content"
  "yaml_parse rt = Some parse \<Longrightarrow> parse content = None \<Longrightarrow> parseYaml rt content = naiveParse content"
  "yaml_parse rt = Some parse \<Longrightarrow> parse content = Some v \<Longrightarrow> parseYaml rt content = v"
  by (simp_all add: parseYaml_def)

lemma getEntityFiles_missing_dir:
  "fs_readdir fs dir = None \<Longrightarrow> getEntityFiles rt fs dir opts = []"
  by (simp add: getEntityFiles_def)

lemma scanFiles_origin:
  "e \<in> set (scanFiles rt fs dir opts files) \<Longrightarrow>
   \<exists>file content. file \<in> set files \<and> fs_readFile fs (path_join rt [dir, file]) = Some content
     \<and> e = withFile file (parseYaml rt content)"
  by (induction files) (auto simp add: Let_def split: option.splits if_splits)

lemma getEntityFiles_origin:
  assumes "e \<in> set (getEntityFiles rt fs dir opts)"
  shows "\<exists>fileNames file content. fs_readdir fs dir = Some fileNames \<and> file \<in> set fileNames
     \<and> hasYamlExt file \<and> fs_readFile fs (path_join rt [dir, file]) = Some content
     \<and> e = withFile file (parseYaml rt content)"
proof (cases "fs_readdir fs dir")
  case None
  then show ?thesis using assms by (simp add: getEntityFiles_def)
next
  case (Some fileNames)
  let ?keep = "\<lambda>f. hasYamlExt f \<and> (case fileFilter opts of None \<Rightarrow> True | Some keep \<Rightarrow> keep f)"
  have "e \<in> set (scanFiles rt fs dir opts (filter ?keep fileNames))"
    using assms Some by (simp add: getEntityFiles_def)
  then obtain fname content where
    f: "fname \<in> set (filter ?keep fileNames)"
    and c: "fs_readFile fs (path_join rt [dir, fname]) = Some content"
    and e: "e = withFile fname (parseYaml rt content)"
    using scanFiles_origin by blast
  from f have "fname \<in> set fileNames" and "hasYamlExt fname" by simp_all
  with Some c e show ?thesis by blast
qed

subsection \<open>Spread and rest\<close>

text \<open>
  The entries of \<^verbatim>\<open>{ ...target, ...v }\<close>: those of \<open>v\<close> win over those of the target.
\<close>

lemma map_of_fold_update:
  "map_of (fold (\<lambda>(k, x) t. AList.update k x t) es t) k =
     (case map_of (rev es) k of Some v \<Rightarrow> Some v | None \<Rightarrow> map_of t k)"
proof (induction es arbitrary: t)
  case Nil
  show ?case by simp
next
  case (Cons e es)
  obtain a b where e: "e = (a, b)" by (cases e)
  show ?case
    by (simp add: Cons.IH e update_conv' map_add_def split: option.splits)
qed

lemma map_of_rev_keyed:
  "map_of (rev (map (\<lambda>k. (k, f k)) ks)) k = (if k \<in> set ks then Some (f k) else None)"
  by (induction ks) (auto simp add: map_add_def split: option.splits)

lemma map_of_rev_ownEntries:
  "map_of (rev (ownEntries (JObj kvs))) k =
     (if k \<in> fst ` set kvs then Some (getField (JObj kvs) k) else None)"
proof -
  have "ownEntries (JObj kvs) = map (\<lambda>k. (k, getField (JObj kvs) k)) (map fst kvs)"
    by (simp only: ownEntries.simps)
  then show ?thesis
    by (simp only: map_of_rev_keyed set_map)
qed

lemma lookup_spread_obj:
  "map_of (spreadInto t (JObj kvs)) k =
     (if k \<in> fst ` set kvs then map_of kvs k else map_of t k)"
proof (cases "k \<in> fst ` set kvs")
  case True
  then obtain v where "map_of kvs k = Some v"
    by (metis domIff dom_map_of_conv_image_fst not_Some_eq)
  then show ?thesis
    using True by (simp add: spreadInto_def map_of_fold_update map_of_rev_ownEntries del: ownEntries.simps)
next
  case False
  then show ?thesis
    by (simp add: spreadInto_def map_of_fold_update map_of_rev_ownEntries del: ownEntries.simps)
qed

lemma getField_withFile_obj:
  "getField (withFile file (JObj kvs)) k =
     (if k \<in> fst ` set kvs then getField (JObj kvs) k
      else if k = ascii ''__file'' then JStr file else JUndefined)"
  by (simp add: withFile_def lookup_spread_obj)

lemma getField_shadowed:
  assumes "ascii ''__file'' \<in> fst ` set kvs"
  shows "getField (withFile file (JObj kvs)) k = getField (JObj kvs) k"
proof (cases "k \<in> fst ` set kvs")
  case True
  then show ?thesis by (simp add: getField_withFile_obj)
next
  case False
  then have "k \<noteq> ascii ''__file''" using assms by auto
  moreover have "map_of kvs k = None" using False by (simp add: map_of_eq_None_iff)
  ultimately show ?thesis using False by (simp add: getField_withFile_obj)
qed

lemma matchesId_shadowed:
  assumes "ascii ''__file'' \<in> fst ` set kvs"
  shows "matchesId rt (withFile f (JObj kvs)) ident = matchesId rt (JObj kvs) ident"
proof (rule matchesId_fields)
  show "truthy (withFile f (JObj kvs)) = truthy (JObj kvs)" by (simp add: withFile_def)
  show "\<And>k. getField (withFile f (JObj kvs)) k = getField (JObj kvs) k"
    by (rule getField_shadowed [OF assms])
qed

lemma getField_withFile_plain:
  assumes "ascii ''__file'' \<notin> fst ` set (ownEntries parsed)"
  shows "getField (withFile file parsed) (ascii ''__file'') = JStr file"
proof -
  have "map_of (rev (ownEntries parsed)) (ascii ''__file'') = None"
    using assms by (simp add: map_of_eq_None_iff)
  then show ?thesis by (simp add: withFile_def spreadInto_def map_of_fold_update)
qed

lemma ownEntries_no_file:
  assumes "\<forall>kvs. parsed = JObj kvs \<longrightarrow> ascii ''__file'' \<notin> fst ` set kvs"
  shows "ascii ''__file'' \<notin> fst ` set (ownEntries parsed)"
proof (cases parsed)
  case (JObj kvs)
  then show ?thesis using assms by (simp add: image_image)
next
  case (JArr xs)
  show ?thesis
  proof
    assume "ascii ''__file'' \<in> fst ` set (ownEntries parsed)"
    then have "ascii ''__file'' \<in> set (map (\<lambda>i. numToString (int i)) [0..<length xs])"
      unfolding JArr ownEntries.simps by (auto dest: set_zip_leftD)
    then show False using file_not_index by blast
  qed
next
  case (JStr s)
  show ?thesis
  proof
    assume "ascii ''__file'' \<in> fst ` set (ownEntries parsed)"
    then have "ascii ''__file'' \<in> set (map (\<lambda>i. numToString (int i)) [0..<length s])"
      unfolding JStr ownEntries.simps by (auto dest: set_zip_leftD)
    then show False using file_not_index by blast
  qed
qed simp_all

lemma getField_withBrand:
  "getField (withBrand brandId v) (ascii ''brand'') = JObj [(ascii ''slug'', JStr brandId)]"
  by (simp add: withBrand_def update_conv')

subsection \<open>Directories, reading and writing\<close>

text \<open>
  Looking a directory up without \<^verbatim>\<open>createIfMissing\<close> leaves the file system alone, and
  \<^verbatim>\<open>updateEntityFile\<close> changes it only when it answers \<^verbatim>\<open>{ ok: true }\<close>.
\<close>

lemma findEntityDir_reading:
  "findEntityDir rt fs entity False = Inr (found, fs') \<Longrightarrow> fs' = fs"
  by (auto simp add: findEntityDir_def split: option.splits)

lemma findEntityFile_yaml:
  "fs_access fs (path_join rt [dir, ident @ ascii ''.yaml'']) \<Longrightarrow>
   findEntityFile rt fs dir ident = Some (path_join rt [dir, ident @ ascii ''.yaml''], ascii ''.yaml'')"
  by (simp add: findEntityFile_def Let_def)

lemma findEntityFile_yml:
  "\<not> fs_access fs (path_join rt [dir, ident @ ascii ''.yaml'']) \<Longrightarrow>
   fs_access fs (path_join rt [dir, ident @ ascii ''.yml'']) \<Longrightarrow>
   findEntityFile rt fs dir ident = Some (path_join rt [dir, ident @ ascii ''.yml''], ascii ''.yml'')"
  by (simp add: findEntityFile_def Let_def)

lemma findEntityFile_none:
  "\<not> fs_access fs (path_join rt [dir, ident @ ascii ''.yaml'']) \<Longrightarrow>
   \<not> fs_access fs (path_join rt [dir, ident @ ascii ''.yml'']) \<Longrightarrow>
   findEntityFile rt fs dir ident = None"
  by (simp add: findEntityFile_def Let_def)

lemma readSingleEntity_in_dir:
  assumes "findEntityDir rt fs entity False = Inr (Some dir, fs)" and "dir \<noteq> []"
  shows "readSingleEntity rt fs entity ident =
     (case directRead rt fs dir ident of
        Some parsed \<Rightarrow> Inr parsed
      | None \<Rightarrow>
          (case findMatch rt ident (getEntityFiles rt fs dir noOptions) of
             Inl x \<Rightarrow> Inl x
           | Inr None \<Rightarrow> Inr (errorObj (butlast entity @ ascii '' not found'') 404)
           | Inr (Some match) \<Rightarrow> Inr (withoutFile match)))"
  using assms by (simp add: readSingleEntity_def)


lemma okObj_not_error: "errorObj m s \<noteq> okObj"
  by (simp add: errorObj_def okObj_def ascii_eq_iff)

lemma updateEntityFile_frame:
  assumes "updateEntityFile rt fs dir ident newValue = Inr (r, fs')" and "r \<noteq> okObj"
  shows "fs' = fs"
  using assms
  by (auto simp add: updateEntityFile_def split: option.splits sum.splits jsval.splits prod.splits)

lemma scanBrands_tagged:
  "d \<in> set (scanBrands rt fs root opts entries) \<Longrightarrow>
   \<exists>entry\<in>set entries. fs_stat fs (path_join rt [root, entry]) = Some True
      \<and> d \<in> withBrand entry ` set (getEntityFiles rt fs (path_join rt [root, entry]) opts)"
  by (induction entries) (auto simp add: Let_def split: if_splits)

lemma scanBrands_complete:
  "entry \<in> set entries \<Longrightarrow> fs_stat fs (path_join rt [root, entry]) = Some True \<Longrightarrow>
   e \<in> set (getEntityFiles rt fs (path_join rt [root, entry]) opts) \<Longrightarrow>
   withBrand entry e \<in> set (scanBrands rt fs root opts entries)"
  by (induction entries) (auto simp add: Let_def)

lemma errorObj_not_array: "errorObj m s \<noteq> JArr xs"
  by (simp add: errorObj_def)

subsection \<open>Serialising\<close>

text \<open>
  The JSON text of a value never ends with a newline, so the fallback result gets exactly
  the one that is appended.
\<close>

lemma jsonValue_last:
  assumes "jsonValue ind v = Some s"
  shows "s \<noteq> [] \<and> last s \<noteq> 10"
proof (cases v)
  case (JNum n)
  then show ?thesis using assms numToString_last by auto
next
  case (JStr x)
  then show ?thesis using assms by (auto simp add: jsonQuote_def)
next
  case (JArr xs)
  then show ?thesis using assms by (auto simp add: ascii_def split: if_splits)
next
  case (JObj kvs)
  then show ?thesis using assms by (auto simp add: ascii_def split: if_splits)
qed (use assms in \<open>auto simp add: ascii_def split: if_splits\<close>)

lemma jsonFallback_last: "jsonFallback obj \<noteq> [] \<and> last (jsonFallback obj) \<noteq> 10"
proof (cases "jsonValue [] obj")
  case None
  then show ?thesis by (simp add: jsonFallback_def fallbackHeader_def ascii_def)
next
  case (Some s)
  then show ?thesis using jsonValue_last [OF Some] by (simp add: jsonFallback_def)
qed

lemma trailingNewlines_snoc:
  "trailingNewlines (s @ [10]) = Suc (trailingNewlines s)"
  by (simp add: trailingNewlines_def)

lemma trailingNewlines_zero:
  "\<not> endsWithNewline s \<Longrightarrow> trailingNewlines s = 0"
  by (cases s rule: rev_cases) (simp_all add: trailingNewlines_def endsWithNewline_def)

lemma trailingNewlines_pos:
  "endsWithNewline s \<Longrightarrow> 1 \<le> trailingNewlines s"
  by (cases s rule: rev_cases) (simp_all add: trailingNewlines_def endsWithNewline_def)

lemma finish_count:
  "trailingNewlines (if \<not> endsWithNewline r then r @ [10] else r) = max 1 (trailingNewlines r)"
  using trailingNewlines_pos [of r]
  by (auto simp add: trailingNewlines_snoc trailingNewlines_zero)

lemma jsonFallback_count: "trailingNewlines (jsonFallback obj) = 0"
  using jsonFallback_last [of obj] by (simp add: trailingNewlines_zero endsWithNewline_def)

subsection \<open>The sample data, evaluated\<close>

lemma sample_nfkd: "normalizeNFKD sampleRuntime = Some sampleNFKD"
  by (simp add: sampleRuntime_def)

lemma sample_fields:
  "fs_stat sampleFs = map_of sampleStat"
  "fs_readdir sampleFs = map_of sampleListing"
  "fs_access sampleFs = (\<lambda>p. map_of sampleStat p \<noteq> None)"
  "fs_readFile sampleFs = map_of sampleFiles"
  by (simp_all add: sampleFs_def)

lemma sample_paths:
  "cwd sampleRuntime = ascii ''/app''"
  "path_resolve sampleRuntime = joinSlash"
  "path_join sampleRuntime = joinSlash"
  "yaml_parse sampleRuntime = None"
  "yaml_stringify sampleRuntime = None"
  "normalizeNFKD sampleRuntime = Some sampleNFKD"
  "toLowerCase sampleRuntime = map lowerAscii"
  by (simp_all add: sampleRuntime_def)

lemmas naive_defs = parseYaml_def naiveParse_def naiveLine_def trim_def isSpace_def assignKey_def
  isQuoted_def isQuote_def ascii_def Let_def

lemma parse_acme: "parseYaml sampleRuntime acmeText = acmeDoc"
  by (simp add: sample_paths naive_defs acmeText_def acmeDoc_def)

lemma parse_shadow: "parseYaml sampleRuntime shadowText = shadowDoc"
  by (simp add: sample_paths naive_defs shadowText_def shadowDoc_def)

lemma parse_pla: "parseYaml sampleRuntime plaText = plaDoc"
  by (simp add: sample_paths naive_defs plaText_def plaDoc_def)

lemma sample_brands_dir:
  "findEntityDir sampleRuntime sampleFs (ascii ''brands'') False
     = Inr (Some (ascii ''/app/data/brands''), sampleFs)"
  by (simp add: findEntityDir_def sample_paths sample_fields sampleStat_def path_eval)

lemma sample_materials_dir:
  "findEntityDir sampleRuntime sampleFs (ascii ''materials'') False
     = Inr (Some (ascii ''/app/data/materials''), sampleFs)"
  by (simp add: findEntityDir_def sample_paths sample_fields sampleStat_def path_eval)

lemma brands_dir_nonempty: "ascii ''/app/data/brands'' \<noteq> []"
  by (simp add: ascii_def)

lemma withFile_acme: "withFile (ascii ''acme.yaml'') acmeDoc = acmeScan"
  by (simp add: withFile_def spreadInto_def acmeDoc_def acmeScan_def path_eval)

lemma withFile_shadow: "withFile (ascii ''shadow.yml'') shadowDoc = shadowDoc"
  by (simp add: withFile_def spreadInto_def shadowDoc_def path_eval)

lemma yaml_ext:
  "hasYamlExt (ascii ''acme.yaml'')" "hasYamlExt (ascii ''broken.yaml'')"
  "\<not> hasYamlExt (ascii ''notes.txt'')" "hasYamlExt (ascii ''shadow.yml'')"
  "hasYamlExt (ascii ''pla.yaml'')"
  by (simp_all add: hasYamlExt_def endsWithCI_def ascii_def lowerAscii_def)

lemma scan_brands:
  "getEntityFiles sampleRuntime sampleFs (ascii ''/app/data/brands'') noOptions = [acmeScan, shadowDoc]"
  by (simp add: getEntityFiles_def noOptions_def sample_fields sampleListing_def yaml_ext
      sample_paths sampleFiles_def path_eval parse_acme parse_shadow withFile_acme withFile_shadow)

lemma slug_acme: "slugifyName sampleRuntime (JStr (ascii ''Acme Corp'')) = Inr (JStr (ascii ''acme-corp''))"
proof (rule slugify_primary [OF sample_paths(6)])
  show "ascii ''Acme Corp'' \<noteq> []" by (simp add: ascii_def)
  show "filter (\<lambda>c. \<not> isCombiningMark c) (sampleNFKD (ascii ''Acme Corp'')) = ascii ''Acme Corp''"
    by (simp add: sampleNFKD_def ascii_def isCombiningMark_def)
  show "toLowerCase sampleRuntime (ascii ''Acme Corp'') = ascii ''acme corp''"
    by (simp add: sample_paths ascii_def lowerAscii_def)
  show "replaceRuns isHyphen (replaceRuns isSpaceOrUnderscore (filter isSlugChar (trim (ascii ''acme corp'')))) = ascii ''acme-corp''"
    by (simp add: ascii_def charclass_defs)
qed

lemma slug_phantom: "slugifyName sampleRuntime (JStr (ascii ''Phantom'')) = Inr (JStr (ascii ''phantom''))"
proof (rule slugify_primary [OF sample_paths(6)])
  show "ascii ''Phantom'' \<noteq> []" by (simp add: ascii_def)
  show "filter (\<lambda>c. \<not> isCombiningMark c) (sampleNFKD (ascii ''Phantom'')) = ascii ''Phantom''"
    by (simp add: sampleNFKD_def ascii_def isCombiningMark_def)
  show "toLowerCase sampleRuntime (ascii ''Phantom'') = ascii ''phantom''"
    by (simp add: sample_paths ascii_def lowerAscii_def)
  show "replaceRuns isHyphen (replaceRuns isSpaceOrUnderscore (filter isSlugChar (trim (ascii ''phantom'')))) = ascii ''phantom''"
    by (simp add: ascii_def charclass_defs)
qed

lemma stems:
  "stripYamlExt (ascii ''acme.yaml'') = ascii ''acme''"
  "stripYamlExt (ascii ''ghost.yaml'') = ascii ''ghost''"
  by (simp_all add: stripYamlExt_def endsWithCI_def ascii_def lowerAscii_def)

lemma acmeScan_fields:
  "truthy acmeScan"
  "getField acmeScan (ascii ''slug'') = JStr (ascii ''acme-corp'')"
  "getField acmeScan (ascii ''__file'') = JStr (ascii ''acme.yaml'')"
  "getField acmeScan (ascii ''name'') = JStr (ascii ''Acme Corp'')"
  "getField acmeScan (ascii ''uuid'') = JStr (ascii ''1234'')"
  by (simp_all add: acmeScan_def ascii_eq_iff)

lemma shadowDoc_fields:
  "truthy shadowDoc"
  "getField shadowDoc (ascii ''slug'') = JUndefined"
  "getField shadowDoc (ascii ''__file'') = JStr (ascii ''ghost.yaml'')"
  "getField shadowDoc (ascii ''name'') = JStr (ascii ''Phantom'')"
  "getField shadowDoc (ascii ''uuid'') = JUndefined"
  by (simp_all add: shadowDoc_def ascii_eq_iff)

lemma matches_acme:
  "matchesId sampleRuntime acmeScan (ascii (c # cs)) =
     Inr (c # cs = ''acme-corp'' \<or> c # cs = ''acme'' \<or> c # cs = ''1234'')"
proof -
  have "matchesId sampleRuntime acmeScan (ascii (c # cs)) =
     Inr (getField acmeScan (ascii ''slug'') = JStr (ascii (c # cs))
          \<or> (\<exists>f. getField acmeScan (ascii ''__file'') = JStr f \<and> stripYamlExt f = ascii (c # cs))
          \<or> JStr (ascii ''acme-corp'') = JStr (ascii (c # cs))
          \<or> ascii ''1234'' = ascii (c # cs))"
    by (rule matchesId_returns) (simp_all add: acmeScan_fields ascii_nonempty slug_acme)
  then show ?thesis
    by (simp add: acmeScan_fields stems ascii_eq_iff) blast
qed

lemma matches_shadow:
  "matchesId sampleRuntime shadowDoc (ascii (c # cs)) =
     Inr (c # cs = ''ghost'' \<or> c # cs = ''phantom'' \<or> c # cs = ''undefined'')"
proof -
  have "matchesId sampleRuntime shadowDoc (ascii (c # cs)) =
     Inr (getField shadowDoc (ascii ''slug'') = JStr (ascii (c # cs))
          \<or> (\<exists>f. getField shadowDoc (ascii ''__file'') = JStr f \<and> stripYamlExt f = ascii (c # cs))
          \<or> JStr (ascii ''phantom'') = JStr (ascii (c # cs))
          \<or> ascii ''undefined'' = ascii (c # cs))"
    by (rule matchesId_returns) (simp_all add: shadowDoc_fields ascii_nonempty slug_phantom)
  then show ?thesis
    by (simp add: shadowDoc_fields stems ascii_eq_iff) blast
qed

lemma sample_access:
  "fs_access sampleFs (path_join sampleRuntime [ascii ''/app/data/brands'', ascii ''acme'' @ ascii ''.yaml''])"
  "\<not> fs_access sampleFs (path_join sampleRuntime [ascii ''/app/data/brands'', ascii ''shadow'' @ ascii ''.yaml''])"
  "fs_access sampleFs (path_join sampleRuntime [ascii ''/app/data/brands'', ascii ''shadow'' @ ascii ''.yml''])"
  "fs_access sampleFs (path_join sampleRuntime [ascii ''/app/data/brands'', ascii ''broken'' @ ascii ''.yaml''])"
  "\<not> fs_access sampleFs (path_join sampleRuntime [ascii ''/app/data/brands'', ascii ''nope'' @ ascii ''.yaml''])"
  "\<not> fs_access sampleFs (path_join sampleRuntime [ascii ''/app/data/brands'', ascii ''nope'' @ ascii ''.yml''])"
  "\<not> fs_access sampleFs (path_join sampleRuntime [ascii ''/app/data/brands'', ascii ''1234'' @ ascii ''.yaml''])"
  "\<not> fs_access sampleFs (path_join sampleRuntime [ascii ''/app/data/brands'', ascii ''1234'' @ ascii ''.yml''])"
  by (auto simp add: sample_fields sample_paths sampleStat_def path_eval)

lemma sample_read:
  "fs_readFile sampleFs (path_join sampleRuntime [ascii ''/app/data/brands'', ascii ''acme'' @ ascii ''.yaml'']) = Some acmeText"
  "fs_readFile sampleFs (path_join sampleRuntime [ascii ''/app/data/brands'', ascii ''shadow'' @ ascii ''.yml'']) = Some shadowText"
  "fs_readFile sampleFs (path_join sampleRuntime [ascii ''/app/data/brands'', ascii ''broken'' @ ascii ''.yaml'']) = None"
  by (simp_all add: sample_fields sample_paths sampleFiles_def path_eval)

lemma no_match_broken:
  "\<forall>e\<in>set (getEntityFiles sampleRuntime sampleFs (ascii ''/app/data/brands'') noOptions).
     matchesId sampleRuntime e (ascii ''broken'') = Inr False"
  by (simp add: scan_brands matches_acme matches_shadow)


lemma brand_not_found_msg: "butlast (ascii ''brands'') @ ascii '' not found'' = ascii ''brand not found''"
  by (simp add: ascii_def)

lemma strict_fields:
  "path_join strictRuntime = joinSlash" "path_resolve strictRuntime = joinSlash"
  "cwd strictRuntime = ascii ''/app''" "yaml_parse strictRuntime = Some (\<lambda>c. None)"
  by (simp_all add: strictRuntime_def sampleRuntime_def)

lemma strict_packages_dir:
  "findEntityDir strictRuntime sampleFs (ascii ''packages'') False
     = Inr (Some (ascii ''/app/data/packages''), sampleFs)"
  by (simp add: findEntityDir_def strict_fields sample_fields sampleStat_def path_eval)

lemma strict_bad_file:
  "findEntityFile strictRuntime sampleFs (ascii ''/app/data/packages'') (ascii ''bad'')
     = Some (ascii ''/app/data/packages/bad.yaml'', ascii ''.yaml'')"
  by (auto simp add: findEntityFile_def strict_fields sample_fields sampleStat_def path_eval)

lemma bad_read:
  "fs_readFile sampleFs (ascii ''/app/data/packages/bad.yaml'') = Some (ascii ''name: [oops'')"
  by (simp add: sample_fields sampleFiles_def path_eval)

lemma bad_naive: "naiveParse (ascii ''name: [oops'') = JObj [(ascii ''name'', JStr (ascii ''[oops''))]"
  by (simp add: naive_defs)

lemma noteText_count: "trailingNewlines noteText = 2"
  by (simp add: trailingNewlines_def noteText_def ascii_def)

lemma block_stringify:
  "yaml_stringify blockScalarRuntime = Some (\<lambda>v. if v = noteDoc then Some noteText else None)"
  by (simp add: blockScalarRuntime_def)

lemma enum_members:
  "ascii ''countries'' \<in> set NEW_ENUMS" "ascii ''not-a-real-table'' \<notin> set NEW_ENUMS"
  by (simp_all add: NEW_ENUMS_def ascii_eq_iff)

lemma countries_path:
  "lookupTablePath sampleRuntime (ascii ''countries'') = ascii ''/app/../openprinttag/data/countries.yaml''"
  "lookupTablePath listRuntime (ascii ''countries'') = ascii ''/app/../openprinttag/data/countries.yaml''"
  by (simp_all add: lookupTablePath_def listRuntime_def sample_paths path_eval)

lemma countries_read:
  "fs_readFile sampleFs (ascii ''/app/../openprinttag/data/countries.yaml'') = Some (ascii ''- FR'')"
  by (simp add: sample_fields sampleFiles_def path_eval)

lemma countries_naive: "parseYaml sampleRuntime (ascii ''- FR'') = JObj []"
  by (simp add: sample_paths naive_defs)

lemma countries_list: "parseYaml listRuntime (ascii ''- FR'') = JArr [JStr (ascii ''FR'')]"
  by (simp add: parseYaml_def listRuntime_def)

lemma withoutFile_acme: "withoutFile acmeScan = acmeDoc"
  by (simp add: withoutFile_def spreadInto_def acmeScan_def acmeDoc_def ascii_eq_iff)

lemma read_brand_by_uuid:
  "readSingleEntity sampleRuntime sampleFs (ascii ''brands'') (ascii ''1234'') = Inr acmeDoc"
proof -
  have d: "directRead sampleRuntime sampleFs (ascii ''/app/data/brands'') (ascii ''1234'') = None"
    by (simp add: directRead_def findEntityFile_none [OF sample_access(7) sample_access(8)])
  show ?thesis
    by (simp add: readSingleEntity_in_dir [OF sample_brands_dir brands_dir_nonempty] d scan_brands
        matches_acme withoutFile_acme)
qed

lemma acmeDoc_fields:
  "truthy acmeDoc" "hasErrorKey acmeDoc = Inr False"
  "getField acmeDoc (ascii ''slug'') = JStr (ascii ''acme-corp'')"
  by (simp_all add: acmeDoc_def ascii_eq_iff)

lemma sample_brand_dir:
  "findBrandDir sampleRuntime sampleFs (ascii ''1234'') (ascii ''materials'') False
     = Inr (Some (ascii ''/app/data/materials/acme-corp''), sampleFs)"
proof -
  have p: "fs_stat sampleFs (path_join sampleRuntime [ascii ''/app/data/materials'', ascii ''1234'']) \<noteq> Some True"
    by (simp add: sample_fields sample_paths sampleStat_def path_eval)
  have q: "path_join sampleRuntime [ascii ''/app/data/materials'', ascii ''acme-corp''] = ascii ''/app/data/materials/acme-corp''"
    by (simp add: sample_paths path_eval)
  have r: "fs_stat sampleFs (ascii ''/app/data/materials/acme-corp'') = Some True"
    by (simp add: sample_fields sampleStat_def path_eval)
  show ?thesis
    by (simp add: findBrandDir_def sample_materials_dir ascii_nonempty p read_brand_by_uuid
        acmeDoc_fields ascii_nonempty q r Let_def)
qed

lemma scan_acme_materials:
  "getEntityFiles sampleRuntime sampleFs (ascii ''/app/data/materials/acme-corp'') noOptions
     = [withFile (ascii ''pla.yaml'') plaDoc]"
  by (simp add: getEntityFiles_def noOptions_def sample_fields sampleListing_def yaml_ext
      sample_paths sampleFiles_def path_eval parse_pla)

lemma withBrand_pla: "withBrand b (withFile (ascii ''pla.yaml'') plaDoc) = plaTagged b"
  by (simp add: withBrand_def withFile_def spreadInto_def plaDoc_def plaTagged_def ascii_eq_iff)

lemma nested_by_brand:
  "readNestedEntitiesByBrand sampleRuntime sampleFs (ascii ''materials'') (ascii ''1234'') noOptions
     = Inr (JArr [plaTagged (ascii ''1234'')])"
  by (simp add: readNestedEntitiesByBrand_def findBrandDirForNestedEntity_def sample_brand_dir
      ascii_nonempty scan_acme_materials withBrand_pla)

lemma nested_across:
  "readAllNestedAcrossBrands sampleRuntime sampleFs (ascii ''materials'') noOptions
     = Inr (JArr [plaTagged (ascii ''acme-corp'')])"
proof -
  have l: "fs_readdir sampleFs (ascii ''/app/data/materials'') = Some [ascii ''acme-corp'', ascii ''readme.md'']"
    by (simp add: sample_fields sampleListing_def path_eval)
  have q: "path_join sampleRuntime [ascii ''/app/data/materials'', ascii ''acme-corp''] = ascii ''/app/data/materials/acme-corp''"
    "path_join sampleRuntime [ascii ''/app/data/materials'', ascii ''readme.md''] = ascii ''/app/data/materials/readme.md''"
    by (simp_all add: sample_paths path_eval)
  have r: "fs_stat sampleFs (ascii ''/app/data/materials/acme-corp'') = Some True"
    "fs_stat sampleFs (ascii ''/app/data/materials/readme.md'') = Some False"
    by (simp_all add: sample_fields sampleStat_def path_eval)
  show ?thesis
    by (simp add: readAllNestedAcrossBrands_def sample_materials_dir ascii_nonempty l q r
        scan_acme_materials withBrand_pla)
qed

lemma slug_pla: "slugifyName sampleRuntime (JStr (ascii ''PLA Basic'')) = Inr (JStr (ascii ''pla-basic''))"
proof (rule slugify_primary [OF sample_paths(6)])
  show "ascii ''PLA Basic'' \<noteq> []" by (simp add: ascii_def)
  show "filter (\<lambda>c. \<not> isCombiningMark c) (sampleNFKD (ascii ''PLA Basic'')) = ascii ''PLA Basic''"
    by (simp add: sampleNFKD_def ascii_def isCombiningMark_def)
  show "toLowerCase sampleRuntime (ascii ''PLA Basic'') = ascii ''pla basic''"
    by (simp add: sample_paths ascii_def lowerAscii_def)
  show "replaceRuns isHyphen (replaceRuns isSpaceOrUnderscore (filter isSlugChar (trim (ascii ''pla basic'')))) = ascii ''pla-basic''"
    by (simp add: ascii_def charclass_defs)
qed

lemma plaScan_fields:
  "truthy (withFile (ascii ''pla.yaml'') plaDoc)"
  "getField (withFile (ascii ''pla.yaml'') plaDoc) (ascii ''slug'') = JUndefined"
  "getField (withFile (ascii ''pla.yaml'') plaDoc) (ascii ''__file'') = JStr (ascii ''pla.yaml'')"
  "getField (withFile (ascii ''pla.yaml'') plaDoc) (ascii ''name'') = JStr (ascii ''PLA Basic'')"
  "getField (withFile (ascii ''pla.yaml'') plaDoc) (ascii ''uuid'') = JUndefined"
  by (simp_all add: withFile_def spreadInto_def plaDoc_def ascii_eq_iff)

lemma matches_pla:
  "matchesId sampleRuntime (withFile (ascii ''pla.yaml'') plaDoc) (ascii ''pla-basic'') = Inr True"
proof -
  have "matchesId sampleRuntime (withFile (ascii ''pla.yaml'') plaDoc) (ascii ''pla-basic'') =
     Inr (getField (withFile (ascii ''pla.yaml'') plaDoc) (ascii ''slug'') = JStr (ascii ''pla-basic'')
          \<or> (\<exists>f. getField (withFile (ascii ''pla.yaml'') plaDoc) (ascii ''__file'') = JStr f
                \<and> stripYamlExt f = ascii ''pla-basic'')
          \<or> JStr (ascii ''pla-basic'') = JStr (ascii ''pla-basic'')
          \<or> ascii ''undefined'' = ascii ''pla-basic'')"
    by (rule matchesId_returns) (simp_all add: plaScan_fields ascii_nonempty slug_pla)
  then show ?thesis by simp
qed

lemma sample_nested_dir:
  "findBrandDirForNestedEntity sampleRuntime sampleFs (ascii ''materials'') (ascii ''1234'') False
     = Inr (Some (ascii ''/app/data/materials/acme-corp''), sampleFs)"
  by (simp add: findBrandDirForNestedEntity_def sample_brand_dir)

lemma direct_pla:
  "directRead sampleRuntime sampleFs (ascii ''/app/data/materials/acme-corp'') (ascii ''pla'') = Some plaDoc"
  by (auto simp add: directRead_def findEntityFile_def sample_paths sample_fields sampleStat_def
      sampleFiles_def path_eval parse_pla)

lemma direct_pla_basic:
  "directRead sampleRuntime sampleFs (ascii ''/app/data/materials/acme-corp'') (ascii ''pla-basic'') = None"
  by (auto simp add: directRead_def findEntityFile_def sample_paths sample_fields sampleStat_def
      path_eval)

lemma find_pla_basic:
  "findMatch sampleRuntime (ascii ''pla-basic'')
     (getEntityFiles sampleRuntime sampleFs (ascii ''/app/data/materials/acme-corp'') noOptions)
   = Inr (Some (withFile (ascii ''pla.yaml'') plaDoc))"
  by (simp add: scan_acme_materials matches_pla)

lemma plaSingle_eval:
  "withBrand b plaDoc = plaSingle b"
  "withBrand b (withoutFile (withFile (ascii ''pla.yaml'') plaDoc)) = plaSingle b"
  by (simp_all add: withBrand_def withoutFile_def withFile_def spreadInto_def plaDoc_def
      plaSingle_def ascii_eq_iff)

lemma readNested_in_dir:
  assumes "findBrandDirForNestedEntity rt fs entityDirName brandId False = Inr (Some dir, fs)"
    and "dir \<noteq> []"
  shows "readNestedEntitiesByBrand rt fs entityDirName brandId opts
           = Inr (JArr (map (withBrand brandId) (getEntityFiles rt fs dir opts)))"
    and "readSingleNestedByBrand rt fs entityDirName brandId ident =
           (case directRead rt fs dir ident of
              Some parsed \<Rightarrow> Inr (withBrand brandId parsed)
            | None \<Rightarrow>
                (case findMatch rt ident (getEntityFiles rt fs dir noOptions) of
                   Inl x \<Rightarrow> Inl x
                 | Inr None \<Rightarrow> Inr (errorObj (ascii ''entity not found'') 404)
                 | Inr (Some match) \<Rightarrow> Inr (withBrand brandId (withoutFile match))))"
  using assms by (simp_all add: readNestedEntitiesByBrand_def readSingleNestedByBrand_def)

lemma yaml_ext_more:
  "hasYamlExt (ascii ''five.yaml'')" "hasYamlExt (ascii ''bad.yaml'')"
  by (simp_all add: hasYamlExt_def endsWithCI_def ascii_def lowerAscii_def)













lemma scan_packages:
  "getEntityFiles strictRuntime sampleFs (ascii ''/app/data/packages'') noOptions
     = [JObj [(ascii ''__file'', JStr (ascii ''bad.yaml'')), (ascii ''name'', JStr (ascii ''[oops''))]]"
  by (simp add: getEntityFiles_def noOptions_def sample_fields sampleListing_def
      yaml_ext_more strict_fields sampleFiles_def path_eval
      parseYaml_def bad_naive withFile_def spreadInto_def)


lemma readSingleEntity_unreadable_scan:
  assumes "findEntityDir rt fs entity False = Inr (Some dir, fs)" and "dir \<noteq> []"
    and "findEntityFile rt fs dir ident = Some (p, ext)" and "fs_readFile fs p = None"
  shows "readSingleEntity rt fs entity ident =
           (case findMatch rt ident (getEntityFiles rt fs dir noOptions) of
              Inl x \<Rightarrow> Inl x
            | Inr None \<Rightarrow> Inr (errorObj (butlast entity @ ascii '' not found'') 404)
            | Inr (Some match) \<Rightarrow> Inr (withoutFile match))"
proof -
  have "directRead rt fs dir ident = None"
    using assms(3,4) by (simp add: directRead_def)
  then show ?thesis
    by (simp add: readSingleEntity_in_dir [OF assms(1,2)])
qed

lemma scanFiles_unreadable:
  "fs_readFile fs (path_join rt [dir, fname]) = None
     \<Longrightarrow> scanFiles rt fs dir opts (fname # files) = scanFiles rt fs dir opts files"
  by simp

section \<open>The claims\<close>

text \<open>
  Claim C1. In the resolved entity directory, when \<^verbatim>\<open>{id}.yaml\<close> can be accessed and read,
  \<^verbatim>\<open>readSingleEntity\<close> returns its parsed content as it is, whatever the content says about
  slug, name or uuid; the same holds for \<^verbatim>\<open>{id}.yml\<close> when \<^verbatim>\<open>{id}.yaml\<close> cannot be
  accessed. \<^verbatim>\<open>.yaml\<close> is probed first: it is the file found whenever it can be accessed.
\<close>

theorem readSingleEntity_direct_file:
  assumes "findEntityDir rt fs entity False = Inr (Some dir, fs)" and "dir \<noteq> []"
  shows "(fs_access fs (path_join rt [dir, ident @ ascii ''.yaml''])
          \<and> fs_readFile fs (path_join rt [dir, ident @ ascii ''.yaml'']) = Some content
          \<longrightarrow> readSingleEntity rt fs entity ident = Inr (parseYaml rt content))
       \<and> (\<not> fs_access fs (path_join rt [dir, ident @ ascii ''.yaml''])
          \<and> fs_access fs (path_join rt [dir, ident @ ascii ''.yml''])
          \<and> fs_readFile fs (path_join rt [dir, ident @ ascii ''.yml'']) = Some content
          \<longrightarrow> readSingleEntity rt fs entity ident = Inr (parseYaml rt content))
       \<and> (fs_access fs (path_join rt [dir, ident @ ascii ''.yaml''])
          \<longrightarrow> findEntityFile rt fs dir ident
                = Some (path_join rt [dir, ident @ ascii ''.yaml''], ascii ''.yaml''))"
  by (simp add: readSingleEntity_in_dir [OF assms] directRead_def findEntityFile_yaml
      findEntityFile_yml)

theorem readSingleEntity_direct_file_witness:
  "readSingleEntity sampleRuntime sampleFs (ascii ''brands'') (ascii ''acme'') = Inr acmeDoc
   \<and> getField acmeDoc (ascii ''slug'') = JStr (ascii ''acme-corp'')
   \<and> readSingleEntity sampleRuntime sampleFs (ascii ''brands'') (ascii ''shadow'') = Inr shadowDoc"
  using readSingleEntity_direct_file [OF sample_brands_dir brands_dir_nonempty, of "ascii ''acme''" acmeText]
    readSingleEntity_direct_file [OF sample_brands_dir brands_dir_nonempty, of "ascii ''shadow''" shadowText]
  by (simp add: sample_access sample_read parse_acme parse_shadow) (simp add: acmeDoc_def ascii_eq_iff)

text \<open>
  Claim C2, as amended. \<^verbatim>\<open>matchesId\<close> returns \<^verbatim>\<open>false\<close> on a falsy entity and on an empty
  id. On a truthy entity and a non-empty id, when the entity's name is falsy or a string
  and its uuid converts to a string, the result is the disjunction of the four
  comparisons: the slug, the stem of \<^verbatim>\<open>__file\<close>, the slug of the name, the uuid as a
  string.
\<close>

theorem matchesId_disjunction:
  "(\<not> truthy entity \<or> ident = [] \<longrightarrow> matchesId rt entity ident = Inr False)
   \<and> (truthy entity \<and> ident \<noteq> []
        \<and> (\<not> truthy (getField entity (ascii ''name'')) \<or> (\<exists>s. getField entity (ascii ''name'') = JStr s))
        \<and> toStr (getField entity (ascii ''uuid'')) = Inr u
      \<longrightarrow> (\<exists>nameSlug. slugifyName rt (getField entity (ascii ''name'')) = Inr nameSlug
            \<and> matchesId rt entity ident =
                Inr (getField entity (ascii ''slug'') = JStr ident
                     \<or> (\<exists>f. getField entity (ascii ''__file'') = JStr f \<and> stripYamlExt f = ident)
                     \<or> nameSlug = JStr ident
                     \<or> u = ident)))"
proof (intro conjI impI)
  assume "\<not> truthy entity \<or> ident = []"
  then show "matchesId rt entity ident = Inr False" by (rule matchesId_falsy)
next
  assume h: "truthy entity \<and> ident \<noteq> []
        \<and> (\<not> truthy (getField entity (ascii ''name'')) \<or> (\<exists>s. getField entity (ascii ''name'') = JStr s))
        \<and> toStr (getField entity (ascii ''uuid'')) = Inr u"
  then obtain nameSlug where ns: "slugifyName rt (getField entity (ascii ''name'')) = Inr nameSlug"
    using slugify_falsy slugifyName_string_returns by metis
  from h ns show "\<exists>nameSlug. slugifyName rt (getField entity (ascii ''name'')) = Inr nameSlug
            \<and> matchesId rt entity ident =
                Inr (getField entity (ascii ''slug'') = JStr ident
                     \<or> (\<exists>f. getField entity (ascii ''__file'') = JStr f \<and> stripYamlExt f = ident)
                     \<or> nameSlug = JStr ident
                     \<or> u = ident)"
    using matchesId_returns by blast
qed

theorem matchesId_disjunction_witness:
  "matchesId sampleRuntime JNull (ascii ''acme'') = Inr False
   \<and> matchesId sampleRuntime acmeScan [] = Inr False
   \<and> matchesId sampleRuntime acmeScan (ascii ''acme-corp'') = Inr True
   \<and> matchesId sampleRuntime acmeScan (ascii ''acme'') = Inr True
   \<and> matchesId sampleRuntime acmeScan (ascii ''1234'') = Inr True
   \<and> matchesId sampleRuntime acmeScan (ascii ''Acme Corp'') = Inr False"
proof -
  have u: "toStr (getField acmeScan (ascii ''uuid'')) = Inr (ascii ''1234'')"
    by (simp add: acmeScan_fields)
  have "\<And>ident. ident \<noteq> [] \<Longrightarrow> matchesId sampleRuntime acmeScan ident =
          Inr (getField acmeScan (ascii ''slug'') = JStr ident
               \<or> (\<exists>f. getField acmeScan (ascii ''__file'') = JStr f \<and> stripYamlExt f = ident)
               \<or> JStr (ascii ''acme-corp'') = JStr ident
               \<or> ascii ''1234'' = ident)"
    using matchesId_disjunction [of acmeScan _ sampleRuntime "ascii ''1234''"] u
    by (simp add: acmeScan_fields slug_acme)
  then have m: "\<And>c cs. matchesId sampleRuntime acmeScan (ascii (c # cs)) =
       Inr (c # cs = ''acme-corp'' \<or> c # cs = ''acme'' \<or> c # cs = ''1234'')"
    by (simp add: acmeScan_fields stems ascii_eq_iff ascii_nonempty) blast
  have f: "matchesId sampleRuntime JNull (ascii ''acme'') = Inr False"
    "matchesId sampleRuntime acmeScan [] = Inr False"
    using matchesId_disjunction [of JNull "ascii ''acme''" sampleRuntime] matchesId_disjunction [of acmeScan "[]" sampleRuntime]
    by simp_all
  show ?thesis by (simp add: f m)
qed

text \<open>
  The claim as stated fails on an entity whose name is a number: the slug equals the id,
  and the call throws instead of returning \<^verbatim>\<open>true\<close>. It also fails on the empty id
  with an empty slug, where the guard on the id decides, and on a uuid that has no
  conversion to a string, where the call throws.
\<close>

theorem matchesId_numeric_name_throws:
  "getField (JObj [(ascii ''slug'', JStr (ascii ''x'')), (ascii ''name'', JNum 5)]) (ascii ''slug'') = JStr (ascii ''x'')
   \<and> matchesId sampleRuntime (JObj [(ascii ''slug'', JStr (ascii ''x'')), (ascii ''name'', JNum 5)]) (ascii ''x'') = Inl TypeError
   \<and> getField (JObj [(ascii ''slug'', JStr [])]) (ascii ''slug'') = JStr []
   \<and> matchesId sampleRuntime (JObj [(ascii ''slug'', JStr [])]) [] = Inr False
   \<and> matchesId sampleRuntime (JObj [(ascii ''uuid'', JObj [(ascii ''toString'', JStr (ascii ''x''))])]) (ascii ''y'')
       = Inl TypeError"
  by (simp add: matchesId_def slugifyName_def ascii_eq_iff) (simp add: ascii_def)




text \<open>
  Claim C4, as amended. The result of \<^verbatim>\<open>stringifyYaml\<close> always ends with a newline. On
  the fallback path it is the header and the JSON text with one newline appended, and
  ends with exactly one. On the primary path it is the package's text, with a newline
  appended only if that text does not end with one: it ends with as many newlines as
  the package's text, and with one if that has none.
\<close>

theorem stringifyYaml_trailing_newline:
  "1 \<le> trailingNewlines (stringifyYaml rt obj)
   \<and> (yaml_stringify rt = None \<or> (\<exists>stringify. yaml_stringify rt = Some stringify \<and> stringify obj = None)
        \<longrightarrow> stringifyYaml rt obj = jsonFallback obj @ [10]
            \<and> trailingNewlines (stringifyYaml rt obj) = 1)
   \<and> (\<forall>stringify s. yaml_stringify rt = Some stringify \<and> stringify obj = Some s
        \<longrightarrow> stringifyYaml rt obj = (if endsWithNewline s then s else s @ [10])
            \<and> trailingNewlines (stringifyYaml rt obj) = max 1 (trailingNewlines s))"
proof -
  have a: "1 \<le> trailingNewlines (stringifyYaml rt obj)"
    unfolding stringifyYaml_def Let_def finish_count by simp
  have b: "stringifyYaml rt obj = jsonFallback obj @ [10] \<and> trailingNewlines (stringifyYaml rt obj) = 1"
    if "yaml_stringify rt = None \<or> (\<exists>stringify. yaml_stringify rt = Some stringify \<and> stringify obj = None)"
  proof -
    have r: "stringifyYaml rt obj = (if \<not> endsWithNewline (jsonFallback obj) then jsonFallback obj @ [10] else jsonFallback obj)"
      using that by (auto simp add: stringifyYaml_def)
    have n: "\<not> endsWithNewline (jsonFallback obj)"
      using jsonFallback_last [of obj] by (simp add: endsWithNewline_def)
    show ?thesis unfolding r using n by (simp add: trailingNewlines_snoc jsonFallback_count)
  qed
  have c: "stringifyYaml rt obj = (if endsWithNewline s then s else s @ [10])
            \<and> trailingNewlines (stringifyYaml rt obj) = max 1 (trailingNewlines s)"
    if "yaml_stringify rt = Some stringify \<and> stringify obj = Some s" for stringify s
  proof -
    have r: "stringifyYaml rt obj = (if \<not> endsWithNewline s then s @ [10] else s)"
      using that by (simp add: stringifyYaml_def)
    show ?thesis unfolding r finish_count by simp
  qed
  from a b c show ?thesis by blast
qed

theorem stringifyYaml_trailing_newline_witness:
  "1 \<le> trailingNewlines (stringifyYaml sampleRuntime (JObj []))
   \<and> stringifyYaml sampleRuntime (JObj []) = fallbackHeader @ ascii ''{}'' @ [10]
   \<and> trailingNewlines (stringifyYaml sampleRuntime (JObj [])) = 1
   \<and> stringifyYaml blockScalarRuntime noteDoc = noteText
   \<and> trailingNewlines (stringifyYaml blockScalarRuntime noteDoc) = max 1 (trailingNewlines noteText)"
proof -
  note fallback = stringifyYaml_trailing_newline [of sampleRuntime "JObj []"]
  note primary = stringifyYaml_trailing_newline [of blockScalarRuntime noteDoc]
  have s: "yaml_stringify sampleRuntime = None" by (rule sample_paths)
  have b: "(\<lambda>v. if v = noteDoc then Some noteText else None) noteDoc = Some noteText" by simp
  have a1: "1 \<le> trailingNewlines (stringifyYaml sampleRuntime (JObj []))"
    by (rule fallback [THEN conjunct1])
  have a2: "stringifyYaml sampleRuntime (JObj []) = jsonFallback (JObj []) @ [10]
      \<and> trailingNewlines (stringifyYaml sampleRuntime (JObj [])) = 1"
    by (rule fallback [THEN conjunct2, THEN conjunct1, rule_format, OF disjI1, OF s])
  have p: "stringifyYaml blockScalarRuntime noteDoc = (if endsWithNewline noteText then noteText else noteText @ [10])
      \<and> trailingNewlines (stringifyYaml blockScalarRuntime noteDoc) = max 1 (trailingNewlines noteText)"
    by (rule primary [THEN conjunct2, THEN conjunct2, rule_format, OF conjI, OF block_stringify b])
  have a3: "stringifyYaml sampleRuntime (JObj []) = fallbackHeader @ ascii ''{}'' @ [10]"
    using a2 by (simp add: jsonFallback_def)
  have e: "endsWithNewline noteText"
    by (simp add: endsWithNewline_def noteText_def)
  have p1: "stringifyYaml blockScalarRuntime noteDoc = noteText"
    using p e by simp
  from a1 a2 a3 p p1 show ?thesis by blast
qed

text \<open>
  The claim as stated fails on the primary path when the package's text ends with two
  newlines: nothing strips the second.
\<close>

theorem stringifyYaml_two_newlines: "trailingNewlines (stringifyYaml blockScalarRuntime noteDoc) = 2"
  by (simp add: stringifyYaml_def block_stringify endsWithNewline_def noteText_count)
    (simp add: noteText_def)

text \<open>
  Claim C5. Every document \<^verbatim>\<open>readNestedEntitiesByBrand\<close> returns, and the document
  \<^verbatim>\<open>readSingleNestedByBrand\<close> returns when it returns no error, has the field \<^verbatim>\<open>brand\<close>
  set to \<^verbatim>\<open>{ slug: brandId }\<close> with the caller's \<^verbatim>\<open>brandId\<close>. Every document
  \<^verbatim>\<open>readAllNestedAcrossBrands\<close> returns comes from a subdirectory of the root and has
  \<^verbatim>\<open>brand\<close> set to \<^verbatim>\<open>{ slug: entry }\<close> with that subdirectory's name, and every document of
  every subdirectory is returned so. And the documents are returned: once the brand's
  directory is found, \<^verbatim>\<open>readNestedEntitiesByBrand\<close> returns every document of its scan
  with the brand set, and \<^verbatim>\<open>readSingleNestedByBrand\<close> returns the content of the file
  found for the id, or else the first document of the scan that matches, with the brand set.
\<close>

theorem nested_reads_tagged:
  "(readNestedEntitiesByBrand rt fs entityDirName brandId opts = Inr (JArr docs) \<longrightarrow>
      (\<forall>d\<in>set docs. getField d (ascii ''brand'') = JObj [(ascii ''slug'', JStr brandId)]))
   \<and> (readSingleNestedByBrand rt fs entityDirName brandId ident = Inr v \<longrightarrow>
        v = brandNotFound entityDirName brandId \<or> v = errorObj (ascii ''entity not found'') 404
        \<or> getField v (ascii ''brand'') = JObj [(ascii ''slug'', JStr brandId)])
   \<and> (readAllNestedAcrossBrands rt fs entityDirName opts = Inr (JArr docs) \<longrightarrow>
        (\<exists>root entries. findEntityDir rt fs entityDirName False = Inr (Some root, fs)
           \<and> fs_readdir fs root = Some entries
           \<and> (\<forall>d\<in>set docs. \<exists>entry\<in>set entries.
                 fs_stat fs (path_join rt [root, entry]) = Some True
                 \<and> d \<in> withBrand entry ` set (getEntityFiles rt fs (path_join rt [root, entry]) opts)
                 \<and> getField d (ascii ''brand'') = JObj [(ascii ''slug'', JStr entry)])
           \<and> (\<forall>entry\<in>set entries. fs_stat fs (path_join rt [root, entry]) = Some True \<longrightarrow>
                 (\<forall>e\<in>set (getEntityFiles rt fs (path_join rt [root, entry]) opts).
                    withBrand entry e \<in> set docs))))
   \<and> (\<forall>dir. findBrandDirForNestedEntity rt fs entityDirName brandId False = Inr (Some dir, fs)
          \<and> dir \<noteq> [] \<longrightarrow>
        readNestedEntitiesByBrand rt fs entityDirName brandId opts
          = Inr (JArr (map (withBrand brandId) (getEntityFiles rt fs dir opts)))
        \<and> (\<forall>parsed. directRead rt fs dir ident = Some parsed \<longrightarrow>
              readSingleNestedByBrand rt fs entityDirName brandId ident = Inr (withBrand brandId parsed))
        \<and> (\<forall>m. directRead rt fs dir ident = None
                \<and> findMatch rt ident (getEntityFiles rt fs dir noOptions) = Inr (Some m) \<longrightarrow>
              readSingleNestedByBrand rt fs entityDirName brandId ident
                = Inr (withBrand brandId (withoutFile m))))"
proof -
  have one: "readNestedEntitiesByBrand rt fs entityDirName brandId opts = Inr (JArr docs) \<longrightarrow>
      (\<forall>d\<in>set docs. getField d (ascii ''brand'') = JObj [(ascii ''slug'', JStr brandId)])"
    by (auto simp add: readNestedEntitiesByBrand_def brandNotFound_def errorObj_not_array
        getField_withBrand split: sum.splits option.splits prod.splits)
  have two: "readSingleNestedByBrand rt fs entityDirName brandId ident = Inr v \<longrightarrow>
        v = brandNotFound entityDirName brandId \<or> v = errorObj (ascii ''entity not found'') 404
        \<or> getField v (ascii ''brand'') = JObj [(ascii ''slug'', JStr brandId)]"
    by (auto simp add: readSingleNestedByBrand_def getField_withBrand
        split: sum.splits option.splits prod.splits)
  have three: "readAllNestedAcrossBrands rt fs entityDirName opts = Inr (JArr docs) \<longrightarrow>
        (\<exists>root entries. findEntityDir rt fs entityDirName False = Inr (Some root, fs)
           \<and> fs_readdir fs root = Some entries
           \<and> (\<forall>d\<in>set docs. \<exists>entry\<in>set entries.
                 fs_stat fs (path_join rt [root, entry]) = Some True
                 \<and> d \<in> withBrand entry ` set (getEntityFiles rt fs (path_join rt [root, entry]) opts)
                 \<and> getField d (ascii ''brand'') = JObj [(ascii ''slug'', JStr entry)])
           \<and> (\<forall>entry\<in>set entries. fs_stat fs (path_join rt [root, entry]) = Some True \<longrightarrow>
                 (\<forall>e\<in>set (getEntityFiles rt fs (path_join rt [root, entry]) opts).
                    withBrand entry e \<in> set docs)))"
  proof
    assume a: "readAllNestedAcrossBrands rt fs entityDirName opts = Inr (JArr docs)"
    then obtain found fs' where f: "findEntityDir rt fs entityDirName False = Inr (found, fs')"
      by (auto simp add: readAllNestedAcrossBrands_def split: sum.splits)
    then have fs': "fs' = fs" by (rule findEntityDir_reading)
    from a f obtain root where r: "usablePath found = Some root"
      by (auto simp add: readAllNestedAcrossBrands_def errorObj_not_array split: option.splits)
    then have fr: "found = Some root" by (cases found) (auto split: if_splits)
    from a f r obtain entries where e: "fs_readdir fs root = Some entries"
      and docs: "docs = scanBrands rt fs root opts entries"
      by (auto simp add: readAllNestedAcrossBrands_def errorObj_not_array fs' split: option.splits)
    have "\<forall>d\<in>set docs. \<exists>entry\<in>set entries.
                   fs_stat fs (path_join rt [root, entry]) = Some True
                   \<and> d \<in> withBrand entry ` set (getEntityFiles rt fs (path_join rt [root, entry]) opts)
                   \<and> getField d (ascii ''brand'') = JObj [(ascii ''slug'', JStr entry)]"
    proof
      fix d assume "d \<in> set docs"
      then obtain entry where "entry \<in> set entries"
        "fs_stat fs (path_join rt [root, entry]) = Some True"
        "d \<in> withBrand entry ` set (getEntityFiles rt fs (path_join rt [root, entry]) opts)"
        using scanBrands_tagged docs by blast
      then show "\<exists>entry\<in>set entries.
                   fs_stat fs (path_join rt [root, entry]) = Some True
                   \<and> d \<in> withBrand entry ` set (getEntityFiles rt fs (path_join rt [root, entry]) opts)
                   \<and> getField d (ascii ''brand'') = JObj [(ascii ''slug'', JStr entry)]"
        using getField_withBrand by blast
    qed
    moreover have "\<forall>entry\<in>set entries. fs_stat fs (path_join rt [root, entry]) = Some True \<longrightarrow>
                   (\<forall>e\<in>set (getEntityFiles rt fs (path_join rt [root, entry]) opts).
                      withBrand entry e \<in> set docs)"
      using scanBrands_complete docs by blast
    ultimately show "\<exists>root entries. findEntityDir rt fs entityDirName False = Inr (Some root, fs)
             \<and> fs_readdir fs root = Some entries
             \<and> (\<forall>d\<in>set docs. \<exists>entry\<in>set entries.
                   fs_stat fs (path_join rt [root, entry]) = Some True
                   \<and> d \<in> withBrand entry ` set (getEntityFiles rt fs (path_join rt [root, entry]) opts)
                   \<and> getField d (ascii ''brand'') = JObj [(ascii ''slug'', JStr entry)])
             \<and> (\<forall>entry\<in>set entries. fs_stat fs (path_join rt [root, entry]) = Some True \<longrightarrow>
                   (\<forall>e\<in>set (getEntityFiles rt fs (path_join rt [root, entry]) opts).
                      withBrand entry e \<in> set docs))"
      using f fs' fr e by blast
  qed
  have four: "\<forall>dir. findBrandDirForNestedEntity rt fs entityDirName brandId False = Inr (Some dir, fs)
          \<and> dir \<noteq> [] \<longrightarrow>
        readNestedEntitiesByBrand rt fs entityDirName brandId opts
          = Inr (JArr (map (withBrand brandId) (getEntityFiles rt fs dir opts)))
        \<and> (\<forall>parsed. directRead rt fs dir ident = Some parsed \<longrightarrow>
              readSingleNestedByBrand rt fs entityDirName brandId ident = Inr (withBrand brandId parsed))
        \<and> (\<forall>m. directRead rt fs dir ident = None
                \<and> findMatch rt ident (getEntityFiles rt fs dir noOptions) = Inr (Some m) \<longrightarrow>
              readSingleNestedByBrand rt fs entityDirName brandId ident
                = Inr (withBrand brandId (withoutFile m)))"
    by (simp add: readNested_in_dir)
  from one two three four show ?thesis by (intro conjI)
qed

theorem nested_reads_tagged_witness:
  "readNestedEntitiesByBrand sampleRuntime sampleFs (ascii ''materials'') (ascii ''1234'') noOptions
     = Inr (JArr [plaTagged (ascii ''1234'')])
   \<and> getField (plaTagged (ascii ''1234'')) (ascii ''brand'') = JObj [(ascii ''slug'', JStr (ascii ''1234''))]
   \<and> readSingleNestedByBrand sampleRuntime sampleFs (ascii ''materials'') (ascii ''1234'') (ascii ''pla'')
     = Inr (plaSingle (ascii ''1234''))
   \<and> readSingleNestedByBrand sampleRuntime sampleFs (ascii ''materials'') (ascii ''1234'') (ascii ''pla-basic'')
     = Inr (plaSingle (ascii ''1234''))
   \<and> getField (plaSingle (ascii ''1234'')) (ascii ''brand'') = JObj [(ascii ''slug'', JStr (ascii ''1234''))]
   \<and> readAllNestedAcrossBrands sampleRuntime sampleFs (ascii ''materials'') noOptions
     = Inr (JArr [plaTagged (ascii ''acme-corp'')])
   \<and> getField (plaTagged (ascii ''acme-corp'')) (ascii ''brand'')
     = JObj [(ascii ''slug'', JStr (ascii ''acme-corp''))]"
proof -
  have n: "ascii ''/app/data/materials/acme-corp'' \<noteq> []" by (rule ascii_nonempty)
  note found = nested_reads_tagged [THEN conjunct2, THEN conjunct2, THEN conjunct2, rule_format,
      OF conjI, OF sample_nested_dir n]
  have l: "readNestedEntitiesByBrand sampleRuntime sampleFs (ascii ''materials'') (ascii ''1234'') noOptions
     = Inr (JArr [plaTagged (ascii ''1234'')])"
    using found [THEN conjunct1, of noOptions]
    by (simp add: scan_acme_materials withBrand_pla)
  have a: "getField (plaTagged (ascii ''1234'')) (ascii ''brand'') = JObj [(ascii ''slug'', JStr (ascii ''1234''))]"
    using nested_reads_tagged [THEN conjunct1, rule_format, OF l, of "plaTagged (ascii ''1234'')"]
    by simp
  have b: "readSingleNestedByBrand sampleRuntime sampleFs (ascii ''materials'') (ascii ''1234'') (ascii ''pla'')
     = Inr (plaSingle (ascii ''1234''))"
    using found [THEN conjunct2, THEN conjunct1, rule_format, OF direct_pla]
    by (simp only: plaSingle_eval)
  have c: "readSingleNestedByBrand sampleRuntime sampleFs (ascii ''materials'') (ascii ''1234'') (ascii ''pla-basic'')
     = Inr (plaSingle (ascii ''1234''))"
    using found [THEN conjunct2, THEN conjunct2, rule_format, OF conjI, OF direct_pla_basic find_pla_basic]
    by (simp only: plaSingle_eval)
  have e: "plaSingle (ascii ''1234'') \<noteq> brandNotFound (ascii ''materials'') (ascii ''1234'')"
    "plaSingle (ascii ''1234'') \<noteq> errorObj (ascii ''entity not found'') 404"
    by (simp_all add: plaSingle_def brandNotFound_def errorObj_def ascii_eq_iff)
  have d: "getField (plaSingle (ascii ''1234'')) (ascii ''brand'') = JObj [(ascii ''slug'', JStr (ascii ''1234''))]"
    using nested_reads_tagged [THEN conjunct2, THEN conjunct1, rule_format, OF b] e by blast
  have "getField (plaTagged (ascii ''acme-corp'')) (ascii ''brand'') = JObj [(ascii ''slug'', JStr (ascii ''acme-corp''))]"
    by (simp add: plaTagged_def ascii_eq_iff)
  with l a b c d nested_across show ?thesis by blast
qed

text \<open>
  Claim C6. \<^verbatim>\<open>readLookupTable\<close> returns the error \<^verbatim>\<open>Lookup table not found\<close> (404) for a
  name outside \<^verbatim>\<open>NEW_ENUMS\<close>, whatever the file system holds; for a listed name whose file
  parses to something that is not an array, the error
  \<^verbatim>\<open>Invalid lookup table file (expected array)\<close> (500); and for one whose file parses to
  an array, that array as \<^verbatim>\<open>items\<close>.
\<close>

theorem readLookupTable_cases:
  "(tableName \<notin> set NEW_ENUMS \<longrightarrow>
      readLookupTable rt fs tableName = errorObj (ascii ''Lookup table not found'') 404)
   \<and> (tableName \<in> set NEW_ENUMS
        \<and> fs_readFile fs (lookupTablePath rt tableName) = Some content
        \<and> (\<forall>items. parseYaml rt content \<noteq> JArr items)
      \<longrightarrow> readLookupTable rt fs tableName
            = errorObj (ascii ''Invalid lookup table file (expected array)'') 500)
   \<and> (tableName \<in> set NEW_ENUMS
        \<and> fs_readFile fs (lookupTablePath rt tableName) = Some content
        \<and> parseYaml rt content = JArr items
      \<longrightarrow> readLookupTable rt fs tableName = tableObj items)"
  by (auto simp add: readLookupTable_def split: jsval.splits)

theorem readLookupTable_cases_witness:
  "readLookupTable sampleRuntime sampleFs (ascii ''not-a-real-table'')
     = errorObj (ascii ''Lookup table not found'') 404
   \<and> readLookupTable sampleRuntime sampleFs (ascii ''countries'')
     = errorObj (ascii ''Invalid lookup table file (expected array)'') 500
   \<and> readLookupTable listRuntime sampleFs (ascii ''countries'') = tableObj [JStr (ascii ''FR'')]"
  using readLookupTable_cases [of "ascii ''not-a-real-table''" sampleRuntime sampleFs]
    readLookupTable_cases [of "ascii ''countries''" sampleRuntime sampleFs "ascii ''- FR''"]
    readLookupTable_cases [of "ascii ''countries''" listRuntime sampleFs "ascii ''- FR''" "[JStr (ascii ''FR'')]"]
  by (simp add: enum_members countries_path countries_read countries_naive countries_list)

text \<open>
  Claim C7. \<^verbatim>\<open>slugifyName\<close> maps \<^verbatim>\<open>null\<close>, \<^verbatim>\<open>undefined\<close> and the empty string to \<^verbatim>\<open>null\<close>.
  On a runtime that decomposes and lower-cases the two examples as Unicode says, the
  first one becomes \<^verbatim>\<open>prusament-pla-galaxy-black\<close>; the second becomes
  \<^verbatim>\<open>cafe-noirbrand\<close>, not the \<^verbatim>\<open>cafe-noir-brand\<close> of the claim: the underscore is dropped
  with the punctuation before the step that would turn it into a hyphen.
\<close>

theorem slugifyName_examples:
  assumes nf: "normalizeNFKD rt = Some nfkd"
    and n1: "nfkd (ascii ''Prusament PLA Galaxy Black'') = ascii ''Prusament PLA Galaxy Black''"
    and l1: "toLowerCase rt (ascii ''Prusament PLA Galaxy Black'') = ascii ''prusament pla galaxy black''"
    and n2: "nfkd cafeNoirBrand = [67, 97, 102, 101, 0x301] @ ascii ''   Noir_Brand''"
    and l2: "toLowerCase rt (ascii ''Cafe   Noir_Brand'') = ascii ''cafe   noir_brand''"
  shows "slugifyName rt JNull = Inr JNull \<and> slugifyName rt JUndefined = Inr JNull
       \<and> slugifyName rt (JStr []) = Inr JNull
       \<and> slugifyName rt (JStr (ascii ''Prusament PLA Galaxy Black'')) = Inr (JStr (ascii ''prusament-pla-galaxy-black''))
       \<and> slugifyName rt (JStr cafeNoirBrand) = Inr (JStr (ascii ''cafe-noirbrand''))
       \<and> ascii ''cafe-noirbrand'' \<noteq> ascii ''cafe-noir-brand''"
proof -
  have a: "slugifyName rt (JStr (ascii ''Prusament PLA Galaxy Black'')) = Inr (JStr (ascii ''prusament-pla-galaxy-black''))"
  proof (rule slugify_primary [OF nf _ _ l1])
    show "ascii ''Prusament PLA Galaxy Black'' \<noteq> []" by (simp add: ascii_def)
    show "filter (\<lambda>c. \<not> isCombiningMark c) (nfkd (ascii ''Prusament PLA Galaxy Black'')) = ascii ''Prusament PLA Galaxy Black''"
      unfolding n1 by (simp add: ascii_def isCombiningMark_def)
    show "replaceRuns isHyphen (replaceRuns isSpaceOrUnderscore (filter isSlugChar (trim (ascii ''prusament pla galaxy black'')))) = ascii ''prusament-pla-galaxy-black''"
      by (simp add: ascii_def charclass_defs)
  qed
  have b: "slugifyName rt (JStr cafeNoirBrand) = Inr (JStr (ascii ''cafe-noirbrand''))"
  proof (rule slugify_primary [OF nf _ _ l2])
    show "cafeNoirBrand \<noteq> []" by (simp add: cafeNoirBrand_def)
    show "filter (\<lambda>c. \<not> isCombiningMark c) (nfkd cafeNoirBrand) = ascii ''Cafe   Noir_Brand''"
      unfolding n2 by (simp add: ascii_def isCombiningMark_def)
    show "replaceRuns isHyphen (replaceRuns isSpaceOrUnderscore (filter isSlugChar (trim (ascii ''cafe   noir_brand'')))) = ascii ''cafe-noirbrand''"
      by (simp add: ascii_def charclass_defs)
  qed
  show ?thesis using a b by (simp add: slugify_falsy ascii_def)
qed

theorem slugifyName_examples_witness:
  "slugifyName sampleRuntime JNull = Inr JNull \<and> slugifyName sampleRuntime JUndefined = Inr JNull
       \<and> slugifyName sampleRuntime (JStr []) = Inr JNull
       \<and> slugifyName sampleRuntime (JStr (ascii ''Prusament PLA Galaxy Black'')) = Inr (JStr (ascii ''prusament-pla-galaxy-black''))
       \<and> slugifyName sampleRuntime (JStr cafeNoirBrand) = Inr (JStr (ascii ''cafe-noirbrand''))
       \<and> ascii ''cafe-noirbrand'' \<noteq> ascii ''cafe-noir-brand''"
proof (rule slugifyName_examples [OF sample_nfkd])
  show "sampleNFKD (ascii ''Prusament PLA Galaxy Black'') = ascii ''Prusament PLA Galaxy Black''"
    by (simp add: sampleNFKD_def ascii_def)
  show "toLowerCase sampleRuntime (ascii ''Prusament PLA Galaxy Black'') = ascii ''prusament pla galaxy black''"
    by (simp add: sampleRuntime_def ascii_def lowerAscii_def)
  show "sampleNFKD cafeNoirBrand = [67, 97, 102, 101, 0x301] @ ascii ''   Noir_Brand''"
    by (simp add: sampleNFKD_def cafeNoirBrand_def ascii_def)
  show "toLowerCase sampleRuntime (ascii ''Cafe   Noir_Brand'') = ascii ''cafe   noir_brand''"
    by (simp add: sampleRuntime_def ascii_def lowerAscii_def)
qed

text \<open>
  Claim C8. A document of a scan is \<^verbatim>\<open>{ __file: file, ...parsed }\<close> for a listed YAML file
  that could be read. Its \<^verbatim>\<open>__file\<close> is the file's name when the parsed content has no
  entry \<^verbatim>\<open>__file\<close>; when it has one, \<^verbatim>\<open>__file\<close> is the content's own value, and
  \<^verbatim>\<open>matchesId\<close> decides as it would on the content alone, whatever the file is called.
\<close>

theorem scan_file_field_shadowed:
  "(e \<in> set (getEntityFiles rt fs dir opts) \<longrightarrow>
      (\<exists>fileNames file content. fs_readdir fs dir = Some fileNames \<and> file \<in> set fileNames
         \<and> hasYamlExt file \<and> fs_readFile fs (path_join rt [dir, file]) = Some content
         \<and> e = withFile file (parseYaml rt content)))
   \<and> ((\<forall>kvs. parsed = JObj kvs \<longrightarrow> ascii ''__file'' \<notin> fst ` set kvs) \<longrightarrow>
        getField (withFile file parsed) (ascii ''__file'') = JStr file)
   \<and> (ascii ''__file'' \<in> fst ` set kvs \<longrightarrow>
        getField (withFile file (JObj kvs)) (ascii ''__file'') = getField (JObj kvs) (ascii ''__file'')
        \<and> matchesId rt (withFile file (JObj kvs)) ident = matchesId rt (JObj kvs) ident)"
  using getEntityFiles_origin getField_withFile_plain ownEntries_no_file getField_shadowed
    matchesId_shadowed by blast

theorem scan_file_field_shadowed_witness:
  "(\<exists>fileNames fname content.
       fs_readdir sampleFs (ascii ''/app/data/brands'') = Some fileNames \<and> fname \<in> set fileNames
       \<and> hasYamlExt fname
       \<and> fs_readFile sampleFs (path_join sampleRuntime [ascii ''/app/data/brands'', fname]) = Some content
       \<and> shadowDoc = withFile fname (parseYaml sampleRuntime content))
   \<and> getField (withFile (ascii ''acme.yaml'') acmeDoc) (ascii ''__file'') = JStr (ascii ''acme.yaml'')
   \<and> getField (withFile (ascii ''shadow.yml'') shadowDoc) (ascii ''__file'') = JStr (ascii ''ghost.yaml'')
   \<and> matchesId sampleRuntime (withFile (ascii ''shadow.yml'') shadowDoc) (ascii ''ghost'') = Inr True
   \<and> matchesId sampleRuntime (withFile (ascii ''shadow.yml'') shadowDoc) (ascii ''shadow'') = Inr False"
proof -
  have a: "shadowDoc \<in> set (getEntityFiles sampleRuntime sampleFs (ascii ''/app/data/brands'') noOptions)"
    by (simp add: scan_brands)
  have b: "\<forall>kvs. acmeDoc = JObj kvs \<longrightarrow> ascii ''__file'' \<notin> fst ` set kvs"
    by (simp add: acmeDoc_def ascii_eq_iff)
  have c: "ascii ''__file'' \<in> fst ` set [(ascii ''__file'', JStr (ascii ''ghost.yaml'')), (ascii ''name'', JStr (ascii ''Phantom''))]"
    by simp
  have 1: "\<exists>fileNames fname content.
       fs_readdir sampleFs (ascii ''/app/data/brands'') = Some fileNames \<and> fname \<in> set fileNames
       \<and> hasYamlExt fname
       \<and> fs_readFile sampleFs (path_join sampleRuntime [ascii ''/app/data/brands'', fname]) = Some content
       \<and> shadowDoc = withFile fname (parseYaml sampleRuntime content)"
    using scan_file_field_shadowed [of shadowDoc sampleRuntime sampleFs "ascii ''/app/data/brands''" noOptions] a by blast
  have 2: "getField (withFile (ascii ''acme.yaml'') acmeDoc) (ascii ''__file'') = JStr (ascii ''acme.yaml'')"
    using scan_file_field_shadowed [of _ _ _ _ _ acmeDoc "ascii ''acme.yaml''"] b by blast
  have 3: "getField (withFile (ascii ''shadow.yml'') shadowDoc) (ascii ''__file'') = getField shadowDoc (ascii ''__file'')
       \<and> (\<forall>ident. matchesId sampleRuntime (withFile (ascii ''shadow.yml'') shadowDoc) ident = matchesId sampleRuntime shadowDoc ident)"
    unfolding shadowDoc_def
    using scan_file_field_shadowed [of _ sampleRuntime _ _ _ _ "ascii ''shadow.yml''" "[(ascii ''__file'', JStr (ascii ''ghost.yaml'')), (ascii ''name'', JStr (ascii ''Phantom''))]"] c
    by blast
  show ?thesis
    using 1 2 3 by (simp add: shadowDoc_fields matches_shadow)
qed

text \<open>
  Claim C9. The claim holds for a file that cannot be read: the error of the read is not
  passed on and \<^verbatim>\<open>readSingleEntity\<close> answers what the scan says, which passes over that
  file. It does not hold for a file that cannot be parsed. \<^verbatim>\<open>readSingleEntity\<close> and
  \<^verbatim>\<open>getEntityFiles\<close> each call \<^verbatim>\<open>parseYaml\<close> inside a \<^verbatim>\<open>try\<close> of their own, but
  \<^verbatim>\<open>parseYaml\<close> catches the throw of the \<^verbatim>\<open>yaml\<close> package itself and returns what the
  line-by-line fallback parser reads, so neither \<^verbatim>\<open>catch\<close> ever sees a parse failure:
  when the package rejects the content of the file found for the id,
  \<^verbatim>\<open>readSingleEntity\<close> returns the fallback parser's reading of it, whatever else the
  directory holds, and the scan keeps the file with that reading instead of passing over it.
\<close>

theorem readSingleEntity_malformed_content:
  assumes "findEntityDir rt fs entity False = Inr (Some dir, fs)" and "dir \<noteq> []"
    and "findEntityFile rt fs dir ident = Some (p, ext)"
    and "fs_readFile fs p = Some content"
    and "yaml_parse rt = Some parse" and "parse content = None"
  shows "parseYaml rt content = naiveParse content
       \<and> readSingleEntity rt fs entity ident = Inr (naiveParse content)
       \<and> (\<forall>fname files. fs_readFile fs (path_join rt [dir, fname]) = Some content \<longrightarrow>
            scanFiles rt fs dir noOptions (fname # files)
              = withFile fname (naiveParse content) # scanFiles rt fs dir noOptions files)"
proof -
  have a: "parseYaml rt content = naiveParse content"
    using assms(5,6) by (simp add: parseYaml_def)
  have "directRead rt fs dir ident = Some (naiveParse content)"
    using assms(3,4) a by (simp add: directRead_def)
  then have b: "readSingleEntity rt fs entity ident = Inr (naiveParse content)"
    by (simp add: readSingleEntity_in_dir [OF assms(1,2)])
  have c: "\<forall>fname files. fs_readFile fs (path_join rt [dir, fname]) = Some content \<longrightarrow>
            scanFiles rt fs dir noOptions (fname # files)
              = withFile fname (naiveParse content) # scanFiles rt fs dir noOptions files"
    by (simp add: a noOptions_def)
  from a b c show ?thesis by (intro conjI)
qed

theorem readSingleEntity_malformed_content_witness:
  "readSingleEntity strictRuntime sampleFs (ascii ''packages'') (ascii ''bad'')
     = Inr (JObj [(ascii ''name'', JStr (ascii ''[oops''))])
   \<and> JObj [(ascii ''name'', JStr (ascii ''[oops''))] \<noteq> errorObj (ascii ''package not found'') 404
   \<and> getEntityFiles strictRuntime sampleFs (ascii ''/app/data/packages'') noOptions
     = [JObj [(ascii ''__file'', JStr (ascii ''bad.yaml'')), (ascii ''name'', JStr (ascii ''[oops''))]]"
proof -
  have n: "ascii ''/app/data/packages'' \<noteq> []" by (rule ascii_nonempty)
  have y: "yaml_parse strictRuntime = Some (\<lambda>c. None)" by (simp add: strict_fields)
  have "readSingleEntity strictRuntime sampleFs (ascii ''packages'') (ascii ''bad'')
     = Inr (naiveParse (ascii ''name: [oops''))"
    by (rule readSingleEntity_malformed_content [OF strict_packages_dir n strict_bad_file bad_read y refl,
          THEN conjunct2, THEN conjunct1])
  then have a: "readSingleEntity strictRuntime sampleFs (ascii ''packages'') (ascii ''bad'')
     = Inr (JObj [(ascii ''name'', JStr (ascii ''[oops''))])"
    by (simp only: bad_naive)
  have b: "JObj [(ascii ''name'', JStr (ascii ''[oops''))] \<noteq> errorObj (ascii ''package not found'') 404"
    by (simp add: errorObj_def ascii_eq_iff)
  from a b scan_packages show ?thesis by (intro conjI)
qed

text \<open>
  Claim C10. On a runtime that leaves \<^verbatim>\<open>!!!\<close> as it is when decomposing and lower-casing,
  \<^verbatim>\<open>slugifyName\<close> maps this non-empty string to the empty string, not to \<^verbatim>\<open>null\<close>, and
  maps the empty string to \<^verbatim>\<open>null\<close>: applied twice it gives \<^verbatim>\<open>null\<close>, applied once the
  empty string.
\<close>

theorem slugifyName_empty_slug:
  assumes nf: "normalizeNFKD rt = Some nfkd"
    and n: "nfkd (ascii ''!!!'') = ascii ''!!!''"
    and l: "toLowerCase rt (ascii ''!!!'') = ascii ''!!!''"
  shows "ascii ''!!!'' \<noteq> [] \<and> slugifyName rt (JStr (ascii ''!!!'')) = Inr (JStr [])
       \<and> slugifyName rt (JStr []) = Inr JNull
       \<and> (\<exists>x. x \<noteq> [] \<and> slugifyName rt (JStr x) = Inr (JStr []) \<and> JStr [] \<noteq> JNull)"
proof -
  have ne: "ascii ''!!!'' \<noteq> []" by (simp add: ascii_def)
  have a: "slugifyName rt (JStr (ascii ''!!!'')) = Inr (JStr [])"
  proof (rule slugify_primary [OF nf ne _ l])
    show "filter (\<lambda>c. \<not> isCombiningMark c) (nfkd (ascii ''!!!'')) = ascii ''!!!''"
      unfolding n by (simp add: ascii_def isCombiningMark_def)
    show "replaceRuns isHyphen (replaceRuns isSpaceOrUnderscore (filter isSlugChar (trim (ascii ''!!!'')))) = []"
      by (simp add: ascii_def charclass_defs)
  qed
  have b: "slugifyName rt (JStr []) = Inr JNull" by (simp add: slugify_falsy)
  from ne a b show ?thesis by blast
qed

theorem slugifyName_empty_slug_witness:
  "ascii ''!!!'' \<noteq> [] \<and> slugifyName sampleRuntime (JStr (ascii ''!!!'')) = Inr (JStr [])
       \<and> slugifyName sampleRuntime (JStr []) = Inr JNull
       \<and> (\<exists>x. x \<noteq> [] \<and> slugifyName sampleRuntime (JStr x) = Inr (JStr []) \<and> JStr [] \<noteq> JNull)"
proof (rule slugifyName_empty_slug [OF sample_nfkd])
  show "sampleNFKD (ascii ''!!!'') = ascii ''!!!''"
    by (simp add: sampleNFKD_def ascii_def)
  show "toLowerCase sampleRuntime (ascii ''!!!'') = ascii ''!!!''"
    by (simp add: sampleRuntime_def ascii_def lowerAscii_def)
qed

end
